theory Spec2Isabelle
  imports Complex_Main
begin

section \<open>Numbers and arrays\<close>

text \<open>
  The engine of \<^verbatim>\<open>PyKineMod/simulate.py\<close> computes with numpy arrays of IEEE doubles.
  A scalar is modelled as a real number or one of the three special values a double can
  take; rounding and overflow are idealised away (finite arithmetic is exact), the
  special values follow IEEE 754 as numpy applies it: a division by zero raises nothing
  and yields an infinity or a NaN. The model has a single zero, so the sign of
  \<open>x / 0\<close> follows \<open>x\<close> alone.
\<close>

datatype fl = Fin real | PInf | NInf | NaN

fun is_finite :: "fl \<Rightarrow> bool" where
  "is_finite (Fin _) = True"
| "is_finite _ = False"

fun fadd :: "fl \<Rightarrow> fl \<Rightarrow> fl" where
  "fadd NaN _ = NaN"
| "fadd _ NaN = NaN"
| "fadd PInf NInf = NaN"
| "fadd NInf PInf = NaN"
| "fadd PInf _ = PInf"
| "fadd _ PInf = PInf"
| "fadd NInf _ = NInf"
| "fadd _ NInf = NInf"
| "fadd (Fin a) (Fin b) = Fin (a + b)"

fun fneg :: "fl \<Rightarrow> fl" where
  "fneg (Fin a) = Fin (- a)"
| "fneg PInf = NInf"
| "fneg NInf = PInf"
| "fneg NaN = NaN"

definition fsub :: "fl \<Rightarrow> fl \<Rightarrow> fl" where
  "fsub a b = fadd a (fneg b)"

definition signed_inf :: "bool \<Rightarrow> fl" where
  "signed_inf positive = (if positive then PInf else NInf)"

fun fmul :: "fl \<Rightarrow> fl \<Rightarrow> fl" where
  "fmul NaN _ = NaN"
| "fmul _ NaN = NaN"
| "fmul (Fin a) (Fin b) = Fin (a * b)"
| "fmul (Fin a) PInf = (if a = 0 then NaN else signed_inf (0 < a))"
| "fmul (Fin a) NInf = (if a = 0 then NaN else signed_inf (a < 0))"
| "fmul PInf (Fin b) = (if b = 0 then NaN else signed_inf (0 < b))"
| "fmul NInf (Fin b) = (if b = 0 then NaN else signed_inf (b < 0))"
| "fmul PInf PInf = PInf"
| "fmul PInf NInf = NInf"
| "fmul NInf PInf = NInf"
| "fmul NInf NInf = PInf"

fun fdiv :: "fl \<Rightarrow> fl \<Rightarrow> fl" where
  "fdiv NaN _ = NaN"
| "fdiv _ NaN = NaN"
| "fdiv (Fin a) (Fin b) =
     (if b = 0 then (if a = 0 then NaN else signed_inf (0 < a)) else Fin (a / b))"
| "fdiv (Fin a) PInf = Fin 0"
| "fdiv (Fin a) NInf = Fin 0"
| "fdiv PInf (Fin b) = signed_inf (0 \<le> b)"
| "fdiv NInf (Fin b) = signed_inf (b < 0)"
| "fdiv PInf PInf = NaN"
| "fdiv PInf NInf = NaN"
| "fdiv NInf PInf = NaN"
| "fdiv NInf NInf = NaN"

text \<open>\<^verbatim>\<open>np.max\<close> propagates NaN.\<close>

fun fmax :: "fl \<Rightarrow> fl \<Rightarrow> fl" where
  "fmax NaN _ = NaN"
| "fmax _ NaN = NaN"
| "fmax PInf _ = PInf"
| "fmax _ PInf = PInf"
| "fmax NInf b = b"
| "fmax a NInf = a"
| "fmax (Fin a) (Fin b) = Fin (max a b)"

type_synonym vec = "fl list"
type_synonym matrix = "fl list list"

text \<open>
  A 1-D array is a list, a 2-D array the list of its rows. numpy arrays are rectangular;
  an array with no row has no recorded column count here, so shapes \<open>(0, k)\<close> are all
  represented by \<open>[]\<close>. An argument that may be of either rank is an \<open>ndarray\<close>.
\<close>

datatype ndarray = Vec vec | Mat matrix

definition ncols :: "matrix \<Rightarrow> nat" where
  "ncols M = (case M of [] \<Rightarrow> 0 | r # _ \<Rightarrow> length r)"

definition rect :: "nat \<Rightarrow> nat \<Rightarrow> matrix \<Rightarrow> bool" where
  "rect m n M = (length M = m \<and> list_all (\<lambda>r. length r = n) M)"

definition mshape :: "matrix \<Rightarrow> nat list" where
  "mshape M = [length M, ncols M]"

fun shape :: "ndarray \<Rightarrow> nat list" where
  "shape (Vec v) = [length v]"
| "shape (Mat M) = mshape M"

fun shape0 :: "ndarray \<Rightarrow> nat" where
  "shape0 (Vec v) = length v"
| "shape0 (Mat M) = length M"

subsection \<open>Errors\<close>

text \<open>
  The messages of the source are f-strings; a message is kept as its literal fragments
  and the values interpolated between them.
\<close>

datatype piece = Txt string | Num nat | Shape "nat list"

datatype error =
    ValueError "piece list"
  | AttributeError string
  | IndexError string
  | LinAlgError
  | External string

definition collect :: "(error + 'a) list \<Rightarrow> error + 'a list" where
  "collect rs = foldr (\<lambda>r acc. case r of Inl e \<Rightarrow> Inl e
                    | Inr x \<Rightarrow> (case acc of Inl e \<Rightarrow> Inl e | Inr xs \<Rightarrow> Inr (x # xs))) rs (Inr [])"

subsection \<open>The numpy operations the engine uses\<close>

definition fsum :: "vec \<Rightarrow> fl" where
  "fsum xs = foldr fadd xs (Fin 0)"

definition dot :: "vec \<Rightarrow> vec \<Rightarrow> fl" where
  "dot u v = fsum (map2 fmul u v)"

definition shape_error :: "string \<Rightarrow> nat list \<Rightarrow> nat list \<Rightarrow> error" where
  "shape_error what s1 s2 = ValueError [Txt what, Shape s1, Txt '' '', Shape s2]"

text \<open>\<^verbatim>\<open>M @ v\<close>, 2-D by 1-D: the columns of \<open>M\<close> must be as many as the entries of \<open>v\<close>.\<close>

definition matvec :: "matrix \<Rightarrow> vec \<Rightarrow> error + vec" where
  "matvec M v =
     (if list_all (\<lambda>r. length r = length v) M then Inr (map (\<lambda>r. dot r v) M)
      else Inl (shape_error ''matmul: mismatch in core dimension '' (mshape M) [length v]))"

text \<open>\<^verbatim>\<open>A @ B\<close>, 2-D by 2-D: the columns of \<open>A\<close> must be as many as the rows of \<open>B\<close>.\<close>

definition matmul :: "matrix \<Rightarrow> matrix \<Rightarrow> error + matrix" where
  "matmul A B =
     (if list_all (\<lambda>r. length r = length B) A
      then Inr (map (\<lambda>r. map (\<lambda>c. dot r c) (transpose B)) A)
      else Inl (shape_error ''matmul: mismatch in core dimension '' (mshape A) (mshape B)))"

text \<open>\<^verbatim>\<open>A @ B\<close> with a 2-D left operand and a right operand of either rank.\<close>

fun matmul_nd :: "matrix \<Rightarrow> ndarray \<Rightarrow> error + ndarray" where
  "matmul_nd A (Vec v) = map_sum id Vec (matvec A v)"
| "matmul_nd A (Mat B) = map_sum id Mat (matmul A B)"

text \<open>\<^verbatim>\<open>X.T\<close>: a 1-D array is its own transpose.\<close>

fun nd_T :: "ndarray \<Rightarrow> ndarray" where
  "nd_T (Vec v) = Vec v"
| "nd_T (Mat M) = Mat (transpose M)"

text \<open>
  Elementwise operations broadcast: two 1-D arrays combine when their lengths agree or
  one of them has length 1.
\<close>

definition bvec :: "(fl \<Rightarrow> fl \<Rightarrow> fl) \<Rightarrow> vec \<Rightarrow> vec \<Rightarrow> error + vec" where
  "bvec f u v =
     (if length u = length v then Inr (map2 f u v)
      else if length u = 1 then Inr (map (f (hd u)) v)
      else if length v = 1 then Inr (map (\<lambda>x. f x (hd v)) u)
      else Inl (shape_error ''operands could not be broadcast together with shapes ''
                  [length u] [length v]))"

text \<open>A 2-D array with a 1-D array: the 1-D array is combined with every row.\<close>

definition bmat_vec :: "(fl \<Rightarrow> fl \<Rightarrow> fl) \<Rightarrow> matrix \<Rightarrow> vec \<Rightarrow> error + matrix" where
  "bmat_vec f M v = collect (map (\<lambda>r. bvec f r v) M)"

text \<open>Two 2-D arrays: the row counts agree or one of them is 1, then row by row.\<close>

definition bmat :: "(fl \<Rightarrow> fl \<Rightarrow> fl) \<Rightarrow> matrix \<Rightarrow> matrix \<Rightarrow> error + matrix" where
  "bmat f A B =
     (if length A = length B then collect (map2 (bvec f) A B)
      else if length A = 1 then collect (map (bvec f (hd A)) B)
      else if length B = 1 then collect (map (\<lambda>r. bvec f r (hd B)) A)
      else Inl (shape_error ''operands could not be broadcast together with shapes ''
                  (mshape A) (mshape B)))"

text \<open>
  \<^verbatim>\<open>np.ndarray.max(sol, axis=0)\<close>: the maximum of every column; numpy raises ValueError
  on an array with no row.
\<close>

definition col_max :: "matrix \<Rightarrow> error + vec" where
  "col_max M = (case M of
       [] \<Rightarrow> Inl (ValueError [Txt ''zero-size array to reduction operation maximum which has no identity''])
     | r # rs \<Rightarrow> Inr (foldl (map2 fmax) r rs))"

text \<open>\<^verbatim>\<open>np.diag\<close> of a 1-D array.\<close>

definition diag :: "vec \<Rightarrow> matrix" where
  "diag v = map (\<lambda>i. map (\<lambda>j. if i = j then v ! i else Fin 0) [0..<length v]) [0..<length v]"

text \<open>
  \<^verbatim>\<open>np.array([...])\<close> of a list of 1-D results: the rows must have one length (numpy
  refuses an inhomogeneous shape).
\<close>

definition stack :: "vec list \<Rightarrow> error + matrix" where
  "stack rows =
     (if list_all (\<lambda>r. length r = ncols rows) rows then Inr rows
      else Inl (ValueError [Txt ''setting an array element with a sequence. The requested array has an inhomogeneous shape'']))"

section \<open>The engine\<close>

subsection \<open>Collaborators\<close>

text \<open>
  A rate law is a Python callable of a concentration array and a keyword \<open>K\<close>. The
  engine applies a bound rate law to a 1-D concentration (in \<open>mole_balance\<close>) and to a
  2-D concentration, species by timesteps (in \<open>run_simulation\<close>); the model keeps what the
  callable returns at these two ranks.
\<close>

record rate_fn =
  on_vec :: "vec \<Rightarrow> fl"
  on_mat :: "matrix \<Rightarrow> vec"

text \<open>A rate-law definition is a \<open>RateLaw\<close> object with a \<open>function\<close>, or a bare callable.\<close>

datatype 'k ratelaw = RateLaw "'k \<Rightarrow> rate_fn" | Callable "'k \<Rightarrow> rate_fn"

text \<open>
  The inlet time function is called as \<open>self.uin(t)\<close>; the constructor also reads its
  attribute \<open>shape\<close>, which a callable may or may not have.
\<close>

record uin_obj =
  uin_call :: "fl \<Rightarrow> vec"
  uin_shape :: "nat list option"

text \<open>
  What the engine calls and \<^verbatim>\<open>simulate.py\<close> does not define: numpy's pseudo-inverse,
  \<open>DataTools.add_reactor_config\<close>, scipy's \<open>odeint\<close>, numpy's multivariate-normal
  sampler (which reads and advances the global generator state \<open>'g\<close>) and
  \<open>extents.compute_matrices\<close>. They are parameters of the model.
\<close>

record ('c, 'g) env =
  pinv :: "matrix \<Rightarrow> error + matrix"
  add_reactor_config ::
    "(fl \<Rightarrow> fl) \<Rightarrow> ndarray option \<Rightarrow> uin_obj option \<Rightarrow> (fl \<Rightarrow> fl) option \<Rightarrow> 'c option
       \<Rightarrow> error + ((fl \<Rightarrow> fl) \<times> ndarray \<times> uin_obj \<times> (fl \<Rightarrow> fl))"
  odeint :: "(vec \<Rightarrow> fl \<Rightarrow> error + vec) \<Rightarrow> vec \<Rightarrow> vec \<Rightarrow> error + matrix"
  mvn :: "'g \<Rightarrow> vec \<Rightarrow> matrix \<Rightarrow> nat \<Rightarrow> (error + matrix) \<times> 'g"
  compute_matrices ::
    "matrix \<Rightarrow> matrix \<Rightarrow> vec \<Rightarrow> error + (ndarray \<times> ndarray \<times> ndarray \<times> ndarray)"

text \<open>
  The state of numpy's global random generator, with the record of the sampler's
  invocations (mean, covariance, size) in the order they were made.
\<close>

record 'g world =
  rng :: 'g
  sampled :: "(vec \<times> matrix \<times> nat) list"

definition multivariate_normal ::
  "('c, 'g) env \<Rightarrow> vec \<Rightarrow> matrix \<Rightarrow> nat \<Rightarrow> 'g world \<Rightarrow> (error + matrix) \<times> 'g world" where
  "multivariate_normal env mean cov n w =
     (case mvn env (rng w) mean cov n of
        (r, g') \<Rightarrow> (r, \<lparr>rng = g', sampled = sampled w @ [(mean, cov, n)]\<rparr>))"

subsection \<open>The object\<close>

text \<open>
  The attributes of a constructed \<open>Simulate\<close> object. \<open>ratelaws\<close> is assigned by
  \<open>add_ratelaws\<close> only, the trajectory attributes by \<open>run_simulation\<close> only: until then
  they are absent.
\<close>

record engine =
  e_N :: matrix
  e_S :: nat
  e_Mw :: matrix
  e_V :: "fl \<Rightarrow> fl"
  e_Winhat :: ndarray
  e_P :: nat
  e_uin :: uin_obj
  e_uout :: "fl \<Rightarrow> fl"
  e_n0 :: vec
  e_Win :: matrix
  e_m0 :: fl
  e_ratelaws :: "rate_fn list option"
  e_time :: "vec option"
  e_sol :: "matrix option"
  e_reaction_rate :: "matrix option"
  e_flow_rate :: "matrix option"
  e_xr :: "ndarray option"
  e_xin :: "ndarray option"
  e_lamda :: "ndarray option"

subsection \<open>Construction\<close>

text \<open>
  Modelled from the spec: \<open>DataTools.add_stoichiometry_data\<close> is not part of
  \<^verbatim>\<open>simulate.py\<close>; it stores \<open>N\<close> and exposes the species count \<open>S\<close>. The right-hand
  side adds \<open>N.T @ rate\<close> to a state of length \<open>S\<close>, so the species axis of the stored
  \<open>N\<close> is its second one.
\<close>

definition species_count :: "matrix \<Rightarrow> nat" where
  "species_count N = ncols N"

text \<open>
  Modelled from the spec: \<open>DataTools.add_Winhat_data\<close> is not part of \<^verbatim>\<open>simulate.py\<close>;
  it stores \<open>Winhat\<close> and exposes the stream count \<open>P\<close>, the second axis of \<open>Winhat\<close>; a
  1-D \<open>Winhat\<close> is a single stream.
\<close>

fun stream_count :: "ndarray \<Rightarrow> nat" where
  "stream_count (Vec v) = 1"
| "stream_count (Mat M) = ncols M"

definition Mw_mismatch :: "matrix \<Rightarrow> nat \<Rightarrow> matrix \<Rightarrow> error" where
  "Mw_mismatch Mw S N = ValueError
     [Txt ''Dimension of Mw '', Shape (mshape Mw), Txt '' should be '', Num S, Txt ''x'', Num S,
      Txt '' and                     is not consistent with Stoichiometric Matrix N '',
      Shape (mshape N)]"

definition Winhat_mismatch :: "ndarray \<Rightarrow> nat \<Rightarrow> nat \<Rightarrow> matrix \<Rightarrow> error" where
  "Winhat_mismatch Winhat S P N = ValueError
     [Txt ''Dimension of Winhat '', Shape (shape Winhat), Txt '' should be '', Num S, Txt ''x'',
      Num P,
      Txt ''                     and is not consistent with Stoichiometric Matrix N '',
      Shape (mshape N)]"

text \<open>
  The message of the \<open>uin\<close> check interpolates \<open>self.uin.shape\<close> and \<open>self.Win.shape\<close>, in
  this order; reading an attribute that is absent raises AttributeError.
\<close>

definition uin_mismatch :: "uin_obj \<Rightarrow> matrix option \<Rightarrow> error" where
  "uin_mismatch u Win =
     (case uin_shape u of
        None \<Rightarrow> AttributeError ''shape''
      | Some us \<Rightarrow>
          (case Win of
             None \<Rightarrow> AttributeError ''Win''
           | Some W \<Rightarrow> ValueError [Txt ''Dimension of uin '', Shape us,
                         Txt '' is not consistent with Winhat '', Shape (mshape W)]))"

definition n0_mismatch :: "nat \<Rightarrow> nat \<Rightarrow> error" where
  "n0_mismatch S n = ValueError
     [Txt ''Required '', Num S, Txt '' species for n0. Received '', Num n,
      Txt '' species instead'']"

text \<open>\<^verbatim>\<open>np.reshape(Win, (Win.shape[0], 1))\<close> when the product is 1-D.\<close>

fun as_2d :: "ndarray \<Rightarrow> matrix" where
  "as_2d (Vec v) = map (\<lambda>x. [x]) v"
| "as_2d (Mat M) = M"

text \<open>
  \<open>Simulate.__init__\<close>. The setters of \<open>DataTools\<close> store their argument (the volume and
  flow setters store the time function built from it, taken here as the argument
  itself). \<open>self.Win\<close> is assigned after the last check only, so it is absent where the
  message of the \<open>uin\<close> check is built.
\<close>

definition init ::
  "('c, 'g) env \<Rightarrow> matrix \<Rightarrow> matrix \<Rightarrow> (fl \<Rightarrow> fl) \<Rightarrow> ndarray option \<Rightarrow> uin_obj option
     \<Rightarrow> (fl \<Rightarrow> fl) option \<Rightarrow> vec option \<Rightarrow> 'c option \<Rightarrow> error + engine" where
  "init env N Mw V Winhat uin uout n0 config =
     (case n0 of
        None \<Rightarrow> Inl (ValueError [Txt ''n0 cannot be None''])
      | Some n0v \<Rightarrow>
          let S = species_count N in
          if length Mw \<noteq> S then Inl (Mw_mismatch Mw S N)
          else (case add_reactor_config env V Winhat uin uout config of
             Inl e \<Rightarrow> Inl e
           | Inr (V', Winhat', uin', uout') \<Rightarrow>
               let P = stream_count Winhat' in
               if shape0 Winhat' \<noteq> S then Inl (Winhat_mismatch Winhat' S P N)
               else if length (uin_call uin' (Fin 0)) \<noteq> P then Inl (uin_mismatch uin' None)
               else if length n0v \<noteq> S then Inl (n0_mismatch S (length n0v))
               else (case pinv env Mw of
                  Inl e \<Rightarrow> Inl e
                | Inr Mi \<Rightarrow>
                    (case matmul_nd Mi Winhat' of
                       Inl e \<Rightarrow> Inl e
                     | Inr W \<Rightarrow>
                         (case matvec Mw n0v of
                            Inl e \<Rightarrow> Inl e
                          | Inr mn \<Rightarrow>
                              Inr \<lparr>e_N = N, e_S = S, e_Mw = Mw, e_V = V', e_Winhat = Winhat',
                                   e_P = P, e_uin = uin', e_uout = uout', e_n0 = n0v,
                                   e_Win = as_2d W, e_m0 = fsum mn, e_ratelaws = None,
                                   e_time = None, e_sol = None, e_reaction_rate = None,
                                   e_flow_rate = None, e_xr = None, e_xin = None,
                                   e_lamda = None\<rparr>)))))"

subsection \<open>Binding the rate laws\<close>

text \<open>
  \<open>add_ratelaws\<close>: every definition is bound to \<open>K[idx]\<close>, in order; \<open>K[idx]\<close> raises
  IndexError past the end of \<open>K\<close>. \<open>partial(ratelaw.function, K=K[idx])\<close> for a \<open>RateLaw\<close>
  object and \<open>partial(ratelaw, K=K[idx])\<close> for a callable both leave a function of the
  concentration.
\<close>

definition bind_fn :: "'k ratelaw \<Rightarrow> 'k \<Rightarrow> rate_fn" where
  "bind_fn ratelaw k = (case ratelaw of RateLaw f \<Rightarrow> f k | Callable f \<Rightarrow> f k)"

definition bind_ratelaw :: "'k list \<Rightarrow> nat \<times> 'k ratelaw \<Rightarrow> error + rate_fn" where
  "bind_ratelaw K p =
     (case p of (idx, ratelaw) \<Rightarrow>
        if idx < length K then Inr (bind_fn ratelaw (K ! idx))
        else Inl (IndexError ''index out of range''))"

definition add_ratelaws :: "engine \<Rightarrow> 'k ratelaw list \<Rightarrow> 'k list \<Rightarrow> error + engine" where
  "add_ratelaws eng ratelaws K =
     (case collect (map (bind_ratelaw K) (enumerate 0 ratelaws)) of
        Inl e \<Rightarrow> Inl e
      | Inr bound \<Rightarrow> Inr (eng\<lparr>e_ratelaws := Some bound\<rparr>))"

subsection \<open>The right-hand side\<close>

text \<open>The outlet term \<^verbatim>\<open>uout(t) * y / m\<close>: the product first, then the division by \<open>m\<close>.\<close>

definition outlet_term :: "fl \<Rightarrow> vec \<Rightarrow> fl \<Rightarrow> vec" where
  "outlet_term u y m = map (\<lambda>x. fdiv x m) (map (fmul u) y)"

text \<open>
  \<open>mole_balance(y, t)\<close>, in the order Python evaluates it:
  \<^verbatim>\<open>c = y / V(t)\<close>, the rates, \<^verbatim>\<open>m = np.sum(Mw @ y)\<close>, then
  \<^verbatim>\<open>(N.T @ rate * V(t)) + (Win @ uin(t)) - (uout(t) * y / m)\<close>, where \<open>@\<close> and \<open>*\<close>, and
  \<open>*\<close> and \<open>/\<close>, associate to the left.
\<close>

definition mole_balance :: "engine \<Rightarrow> vec \<Rightarrow> fl \<Rightarrow> error + vec" where
  "mole_balance eng y t =
     (let c = map (\<lambda>x. fdiv x (e_V eng t)) y in
      case e_ratelaws eng of
        None \<Rightarrow> Inl (AttributeError ''ratelaws'')
      | Some ratelaws \<Rightarrow>
          let rate = map (\<lambda>ratelaw. on_vec ratelaw c) ratelaws in
          (case matvec (e_Mw eng) y of
             Inl e \<Rightarrow> Inl e
           | Inr My \<Rightarrow>
               let m = fsum My in
               (case matvec (transpose (e_N eng)) rate of
                  Inl e \<Rightarrow> Inl e
                | Inr Nr \<Rightarrow>
                    (case matvec (e_Win eng) (uin_call (e_uin eng) t) of
                       Inl e \<Rightarrow> Inl e
                     | Inr Wu \<Rightarrow>
                         (case bvec fadd (map (\<lambda>x. fmul x (e_V eng t)) Nr) Wu of
                            Inl e \<Rightarrow> Inl e
                          | Inr gen_in \<Rightarrow>
                              bvec fsub gen_in (outlet_term (e_uout eng t) y m))))))"

subsection \<open>A run\<close>

text \<open>
  The covariance of the noise:
  \<^verbatim>\<open>noise_std = (alpha / 100) * np.diag(np.ndarray.max(sol, axis=0))\<close> and
  \<^verbatim>\<open>noise_cov = noise_std**2\<close>, both elementwise on the whole matrix.
\<close>

definition noise_cov :: "fl \<Rightarrow> vec \<Rightarrow> matrix" where
  "noise_cov alpha peak =
     (let noise_std = map (map (fmul (fdiv alpha (Fin 100)))) (diag peak)
      in map (map (\<lambda>x. fmul x x)) noise_std)"

text \<open>
  \<^verbatim>\<open>np.array([ratelaw(self._sol.T / self.V(time)) for ratelaw in self.ratelaws])\<close>:
  the concentration is formed anew for every rate law, from the stored noisy
  trajectory; \<open>V(time)\<close> is the volume at every point of the grid.
\<close>

definition noisy_rates :: "engine \<Rightarrow> matrix \<Rightarrow> vec \<Rightarrow> error + matrix" where
  "noisy_rates eng nsol time =
     (case e_ratelaws eng of
        None \<Rightarrow> Inl (AttributeError ''ratelaws'')
      | Some ratelaws \<Rightarrow>
          (case collect (map (\<lambda>ratelaw.
                   case bmat_vec fdiv (transpose nsol) (map (e_V eng) time) of
                     Inl e \<Rightarrow> Inl e
                   | Inr c \<Rightarrow> Inr (on_mat ratelaw c)) ratelaws) of
             Inl e \<Rightarrow> Inl e
           | Inr rows \<Rightarrow> stack rows))"

text \<open>\<^verbatim>\<open>((self.N.T) @ self._reaction_rate * self.V(time)).T\<close>\<close>

definition flow_rates :: "engine \<Rightarrow> matrix \<Rightarrow> vec \<Rightarrow> error + matrix" where
  "flow_rates eng rr time =
     (case matmul (transpose (e_N eng)) rr of
        Inl e \<Rightarrow> Inl e
      | Inr Nr \<Rightarrow>
          (case bmat_vec fmul Nr (map (e_V eng) time) of
             Inl e \<Rightarrow> Inl e
           | Inr f \<Rightarrow> Inr (transpose f)))"

text \<open>\<^verbatim>\<open>1 - lamda\<close>, elementwise.\<close>

fun one_minus :: "ndarray \<Rightarrow> ndarray" where
  "one_minus (Vec v) = Vec (map (fsub (Fin 1)) v)"
| "one_minus (Mat M) = Mat (map (map (fsub (Fin 1))) M)"

text \<open>
  The second half of \<open>run_simulation\<close>, from the rate trajectory on: the rates of the
  noisy trajectory, the flow rates, the decomposition matrices and the three
  projections, each stored on the object as it is computed, and the dictionary returned
  (as the list of its items). The result is the outcome with the object as the call
  leaves it; an exception leaves the attributes assigned before it.
\<close>

definition derived_outputs ::
  "('c, 'g) env \<Rightarrow> engine \<Rightarrow> matrix \<Rightarrow> vec \<Rightarrow> (error + (string \<times> ndarray) list) \<times> engine" where
  "derived_outputs env eng2 nsol time =
     (case noisy_rates eng2 nsol time of
        Inl e \<Rightarrow> (Inl e, eng2)
      | Inr rr \<Rightarrow>
          let eng3 = eng2\<lparr>e_reaction_rate := Some rr\<rparr> in
          (case flow_rates eng3 rr time of
             Inl e \<Rightarrow> (Inl e, eng3)
           | Inr flow \<Rightarrow>
               let eng4 = eng3\<lparr>e_flow_rate := Some flow,
                               e_reaction_rate := Some (transpose rr)\<rparr> in
               (case compute_matrices env (e_N eng4) (e_Win eng4) (e_n0 eng4) of
                  Inl e \<Rightarrow> (Inl e, eng4)
                | Inr (q0T, S0T, M0T, Q0T) \<Rightarrow>
                    (case matmul_nd nsol (nd_T S0T) of
                       Inl e \<Rightarrow> (Inl e, eng4)
                     | Inr xr \<Rightarrow>
                         let eng5 = eng4\<lparr>e_xr := Some xr\<rparr> in
                         (case matmul_nd nsol (nd_T M0T) of
                            Inl e \<Rightarrow> (Inl e, eng5)
                          | Inr xin \<Rightarrow>
                              let eng6 = eng5\<lparr>e_xin := Some xin\<rparr> in
                              (case matmul_nd nsol (nd_T q0T) of
                                 Inl e \<Rightarrow> (Inl e, eng6)
                               | Inr lamda \<Rightarrow>
                                   (Inr [(''moles'', Mat nsol),
                                         (''reaction_rate'', Mat (transpose rr)),
                                         (''flow_rate'', Mat flow),
                                         (''xr'', xr),
                                         (''xin'', xin),
                                         (''xout'', one_minus lamda)],
                                    eng6\<lparr>e_lamda := Some lamda\<rparr>)))))))"

text \<open>
  \<open>run_simulation(time, alpha)\<close>: the grid is stored, the balance is integrated from
  \<open>n0\<close>, the noise is drawn and added, and the outputs are derived from the noisy
  trajectory. The result is the outcome, the object and the generator as the call
  leaves them.
\<close>

definition run_simulation ::
  "('c, 'g) env \<Rightarrow> engine \<Rightarrow> vec \<Rightarrow> fl \<Rightarrow> 'g world
     \<Rightarrow> (error + (string \<times> ndarray) list) \<times> engine \<times> 'g world" where
  "run_simulation env eng time alpha w =
     (let eng1 = eng\<lparr>e_time := Some time\<rparr> in
      case odeint env (mole_balance eng1) (e_n0 eng1) time of
        Inl e \<Rightarrow> (Inl e, eng1, w)
      | Inr sol \<Rightarrow>
          let nSamples = length sol; nSpecies = ncols sol;
              noise_mean = replicate nSpecies (Fin 0)
          in (case col_max sol of
             Inl e \<Rightarrow> (Inl e, eng1, w)
           | Inr peak \<Rightarrow>
               (case multivariate_normal env noise_mean (noise_cov alpha peak) nSamples w of
                  (Inl e, w1) \<Rightarrow> (Inl e, eng1, w1)
                | (Inr noise, w1) \<Rightarrow>
                    (case bmat fadd sol noise of
                       Inl e \<Rightarrow> (Inl e, eng1, w1)
                     | Inr nsol \<Rightarrow>
                         (case derived_outputs env (eng1\<lparr>e_sol := Some nsol\<rparr>) nsol time of
                            (outcome, eng') \<Rightarrow> (outcome, eng', w1))))))"

section \<open>The statements of the specification\<close>

text \<open>
  The right-hand side as the specification writes it, entry by entry:
  \<open>dy/dt = N\<^sup>T r V(t) + Win uin(t) - uout(t) y / m\<close> with \<open>c = y / V(t)\<close>, \<open>r\<close> the bound
  rate laws at \<open>c\<close> and \<open>m = sum(Mw @ y)\<close>. Entry \<open>i\<close> of \<open>N\<^sup>T r\<close> is column \<open>i\<close> of \<open>N\<close>
  against \<open>r\<close>, entry \<open>i\<close> of \<open>Win uin(t)\<close> is row \<open>i\<close> of \<open>Win\<close> against \<open>uin(t)\<close>.
\<close>

definition dydt_formula :: "engine \<Rightarrow> rate_fn list \<Rightarrow> vec \<Rightarrow> fl \<Rightarrow> vec" where
  "dydt_formula eng ratelaws y t =
     (let V = e_V eng t;
          c = map (\<lambda>x. fdiv x V) y;
          r = map (\<lambda>ratelaw. on_vec ratelaw c) ratelaws;
          m = fsum (map (\<lambda>row. dot row y) (e_Mw eng))
      in map (\<lambda>i. fsub (fadd (fmul (dot (map (\<lambda>row. row ! i) (e_N eng)) r) V)
                              (dot (e_Win eng ! i) (uin_call (e_uin eng) t)))
                        (fdiv (fmul (e_uout eng t) (y ! i)) m))
           [0..<length y])"

text \<open>
  A \<open>Winhat\<close> consistent with \<open>S\<close> species and \<open>P\<close> streams: \<open>S\<close> rows of \<open>P\<close> entries, or,
  for a single stream, a 1-D array of \<open>S\<close> entries.
\<close>

fun winhat_ok :: "nat \<Rightarrow> nat \<Rightarrow> ndarray \<Rightarrow> bool" where
  "winhat_ok S P (Vec v) = (length v = S \<and> P = 1)"
| "winhat_ok S P (Mat M) = rect S P M"

text \<open>
  Two objects with identical inputs: the attributes set by the constructor and by
  \<open>add_ratelaws\<close> that the engine reads agree (the trajectory attributes of an earlier run
  may differ).
\<close>

definition same_inputs :: "engine \<Rightarrow> engine \<Rightarrow> bool" where
  "same_inputs a b =
     (e_N a = e_N b \<and> e_Mw a = e_Mw b \<and> e_V a = e_V b \<and> e_uin a = e_uin b
      \<and> e_uout a = e_uout b \<and> e_n0 a = e_n0 b \<and> e_Win a = e_Win b
      \<and> e_ratelaws a = e_ratelaws b)"

section \<open>A small system\<close>

text \<open>
  One reaction \<open>A \<rightarrow> B\<close> of first order between two species, one inlet stream of \<open>A\<close>, a
  constant volume and constant flows. The collaborators are small stand-ins of the right
  type: the pseudo-inverse of a diagonal matrix, a reactor configuration given
  explicitly, explicit Euler steps on the grid in place of the integrator (it
  evaluates the right-hand side at the initial state first and passes on what that
  raises), a sampler whose draws are the mean shifted by a multiple of the variances
  and which, as numpy's does, draws first and then fails on a covariance with an entry
  that is not finite, and fixed decomposition matrices.
\<close>

definition ex_N :: matrix where
  "ex_N = [[Fin (- 1), Fin 1]]"

text \<open>Two reactions \<open>A \<rightarrow> B\<close> and \<open>B \<rightarrow>\<close> between the same two species: a square \<open>N\<close>.\<close>

definition ex_N_square :: matrix where
  "ex_N_square = [[Fin (- 1), Fin 1], [Fin 0, Fin (- 1)]]"

definition ex_Mw :: matrix where
  "ex_Mw = [[Fin 2, Fin 0], [Fin 0, Fin 4]]"

definition ex_V :: "fl \<Rightarrow> fl" where
  "ex_V t = Fin 2"

definition ex_Winhat :: ndarray where
  "ex_Winhat = Mat [[Fin 1], [Fin 0]]"

definition ex_uin :: uin_obj where
  "ex_uin = \<lparr>uin_call = (\<lambda>t. [Fin 3]), uin_shape = None\<rparr>"

definition two_streams :: "nat list option \<Rightarrow> uin_obj" where
  "two_streams shp = \<lparr>uin_call = (\<lambda>t. [Fin 3, Fin 5]), uin_shape = shp\<rparr>"

definition ex_uout :: "fl \<Rightarrow> fl" where
  "ex_uout t = Fin 1"

definition ex_n0 :: vec where
  "ex_n0 = [Fin 1, Fin 2]"

definition first_order :: "real \<Rightarrow> rate_fn" where
  "first_order k =
     \<lparr>on_vec = (\<lambda>c. case c of [] \<Rightarrow> NaN | a # _ \<Rightarrow> fmul (Fin k) a),
      on_mat = (\<lambda>c. case c of [] \<Rightarrow> [] | a # _ \<Rightarrow> map (fmul (Fin k)) a)\<rparr>"

definition pinv_diagonal :: "matrix \<Rightarrow> error + matrix" where
  "pinv_diagonal M = Inr (map (\<lambda>i. map (\<lambda>j.
       if i = j then (case M ! i ! i of Fin a \<Rightarrow> if a = 0 then Fin 0 else Fin (1 / a) | x \<Rightarrow> NaN)
       else Fin 0) [0..<length M]) [0..<length M])"

definition explicit_config ::
  "(fl \<Rightarrow> fl) \<Rightarrow> ndarray option \<Rightarrow> uin_obj option \<Rightarrow> (fl \<Rightarrow> fl) option \<Rightarrow> unit option
       \<Rightarrow> error + ((fl \<Rightarrow> fl) \<times> ndarray \<times> uin_obj \<times> (fl \<Rightarrow> fl))" where
  "explicit_config V Winhat uin uout config =
     (case (Winhat, uin, uout) of
        (Some W, Some u, Some uo) \<Rightarrow> Inr (V, W, u, uo)
      | _ \<Rightarrow> Inl (External ''reactor configuration''))"

fun euler :: "(vec \<Rightarrow> fl \<Rightarrow> error + vec) \<Rightarrow> vec \<Rightarrow> fl \<Rightarrow> vec \<Rightarrow> error + matrix" where
  "euler f y t [] = Inr [y]"
| "euler f y t (t' # ts) =
     (case f y t of
        Inl e \<Rightarrow> Inl e
      | Inr d \<Rightarrow>
          (case euler f (map2 (\<lambda>yi di. fadd yi (fmul (fsub t' t) di)) y d) t' ts of
             Inl e \<Rightarrow> Inl e
           | Inr rows \<Rightarrow> Inr (y # rows)))"

definition euler_odeint :: "(vec \<Rightarrow> fl \<Rightarrow> error + vec) \<Rightarrow> vec \<Rightarrow> vec \<Rightarrow> error + matrix" where
  "euler_odeint f y0 time =
     (case time of
        [] \<Rightarrow> Inl (External ''empty time grid'')
      | t # ts \<Rightarrow> (case f y0 t of Inl e \<Rightarrow> Inl e | Inr _ \<Rightarrow> euler f y0 t ts))"

definition scaled_mvn :: "nat \<Rightarrow> vec \<Rightarrow> matrix \<Rightarrow> nat \<Rightarrow> (error + matrix) \<times> nat" where
  "scaled_mvn g mean cov n =
     (if list_all (list_all is_finite) cov
      then Inr (replicate n (map2 (\<lambda>m row. fadd m (fmul (Fin (real g + 1)) (fsum row))) mean cov))
      else Inl LinAlgError,
      g + n)"

definition ex_matrices ::
  "matrix \<Rightarrow> matrix \<Rightarrow> vec \<Rightarrow> error + (ndarray \<times> ndarray \<times> ndarray \<times> ndarray)" where
  "ex_matrices N Win n0 =
     Inr (Vec (map (\<lambda>x. Fin (1 / 4)) n0), Mat N, Mat (transpose Win), Mat [])"

definition ex_env :: "(unit, nat) env" where
  "ex_env = \<lparr>pinv = pinv_diagonal, add_reactor_config = explicit_config,
     odeint = euler_odeint, mvn = scaled_mvn, compute_matrices = ex_matrices\<rparr>"

definition ex_engine :: engine where
  "ex_engine = \<lparr>e_N = ex_N, e_S = 2, e_Mw = ex_Mw, e_V = ex_V, e_Winhat = ex_Winhat,
     e_P = 1, e_uin = ex_uin, e_uout = ex_uout, e_n0 = ex_n0,
     e_Win = [[Fin (1 / 2)], [Fin 0]], e_m0 = Fin 10, e_ratelaws = None,
     e_time = None, e_sol = None, e_reaction_rate = None,
     e_flow_rate = None, e_xr = None, e_xin = None, e_lamda = None\<rparr>"

definition ex_bound :: engine where
  "ex_bound = ex_engine\<lparr>e_ratelaws := Some [first_order (1 / 2)]\<rparr>"

text \<open>The same object with two rate laws bound, for a matrix \<open>N\<close> of one reaction.\<close>

definition ex_two :: engine where
  "ex_two = ex_engine\<lparr>e_ratelaws := Some [first_order (1 / 2), first_order (1 / 3)]\<rparr>"

text \<open>The object constructed with an empty reactor, \<open>n0 = [0, 0]\<close>, and the rate law bound.\<close>

definition ex_depleted :: engine where
  "ex_depleted = ex_bound\<lparr>e_n0 := [Fin 0, Fin 0], e_m0 := Fin 0\<rparr>"

text \<open>The generator before any draw.\<close>

definition ex_world :: "nat world" where
  "ex_world = \<lparr>rng = 0, sampled = []\<rparr>"

text \<open>What a run over the grid \<open>[0, 1]\<close> with \<open>alpha = 100\<close> returns.\<close>

definition ex_results :: "(string \<times> ndarray) list" where
  "ex_results =
     [(''moles'', Mat [[Fin (461 / 100), Fin (729 / 100)], [Fin (551 / 100), Fin (759 / 100)]]),
      (''reaction_rate'', Mat [[Fin (461 / 400)], [Fin (551 / 400)]]),
      (''flow_rate'', Mat [[Fin (- (461 / 200)), Fin (461 / 200)],
                           [Fin (- (551 / 200)), Fin (551 / 200)]]),
      (''xr'', Mat [[Fin (67 / 25)], [Fin (52 / 25)]]),
      (''xin'', Mat [[Fin (461 / 200)], [Fin (551 / 200)]]),
      (''xout'', Vec [Fin (- (79 / 40)), Fin (- (91 / 40))])]"

text \<open>
  The same collaborators with a 2-D first decomposition matrix (one row), and what the
  same run then returns.
\<close>

definition ex_matrices_2d ::
  "matrix \<Rightarrow> matrix \<Rightarrow> vec \<Rightarrow> error + (ndarray \<times> ndarray \<times> ndarray \<times> ndarray)" where
  "ex_matrices_2d N Win n0 =
     Inr (Mat [map (\<lambda>x. Fin (1 / 4)) n0], Mat N, Mat (transpose Win), Mat [])"

definition ex_env_2d :: "(unit, nat) env" where
  "ex_env_2d = ex_env\<lparr>compute_matrices := ex_matrices_2d\<rparr>"

definition ex_results_2d :: "(string \<times> ndarray) list" where
  "ex_results_2d =
     [(''moles'', Mat [[Fin (461 / 100), Fin (729 / 100)], [Fin (551 / 100), Fin (759 / 100)]]),
      (''reaction_rate'', Mat [[Fin (461 / 400)], [Fin (551 / 400)]]),
      (''flow_rate'', Mat [[Fin (- (461 / 200)), Fin (461 / 200)],
                           [Fin (- (551 / 200)), Fin (551 / 200)]]),
      (''xr'', Mat [[Fin (67 / 25)], [Fin (52 / 25)]]),
      (''xin'', Mat [[Fin (461 / 200)], [Fin (551 / 200)]]),
      (''xout'', Mat [[Fin (- (79 / 40))], [Fin (- (91 / 40))]])]"

section \<open>Arrays: basic facts\<close>

lemma transpose_rect:
  assumes "rect m n M" "0 < m"
  shows "transpose M = map (\<lambda>i. map (\<lambda>r. r ! i) M) [0..<n]"
proof -
  have len: "length M = m" and rows: "\<forall>i<length M. length (M ! i) = n"
    using assms by (auto simp: rect_def list_all_length)
  have "transpose M = map (\<lambda>i. map (\<lambda>j. M ! j ! i) [0..<length M]) [0..<n]"
    using assms len rows by (intro transpose_rectangle) auto
  also have "\<dots> = map (\<lambda>i. map (\<lambda>r. r ! i) M) [0..<n]"
    by (auto intro!: nth_equalityI)
  finally show ?thesis .
qed

lemma ncols_rect: "rect m n M \<Longrightarrow> 0 < m \<Longrightarrow> ncols M = n"
  by (cases M) (auto simp: rect_def ncols_def)

lemma matmul_rect:
  assumes "rect m k A" "rect k n B" "0 < k"
  shows "\<exists>C. matmul A B = Inr C \<and> rect m n C"
  using assms transpose_rect[OF assms(2,3)]
  by (auto simp: matmul_def rect_def list_all_length)

lemma collect_Nil: "collect [] = Inr []"
  by (simp add: collect_def)

lemma collect_Cons:
  "collect (r # rs) = (case r of Inl e \<Rightarrow> Inl e
      | Inr x \<Rightarrow> (case collect rs of Inl e \<Rightarrow> Inl e | Inr xs \<Rightarrow> Inr (x # xs)))"
  by (simp add: collect_def split: sum.splits)

lemma collect_map_Inr: "collect (map Inr ys) = Inr ys"
  by (induction ys) (simp_all add: collect_Nil collect_Cons)

lemma collect_InrD: "collect rs = Inr ys \<Longrightarrow> rs = map Inr ys"
proof (induction rs arbitrary: ys)
  case Nil
  then show ?case by (simp add: collect_Nil)
next
  case (Cons r rs)
  then show ?case
    by (auto simp: collect_Cons split: sum.splits)
qed

lemma nonfinite_div0: "\<not> is_finite (fdiv x (Fin 0))"
  by (cases x) (auto simp: signed_inf_def)

lemma nonfinite_fsub: "\<not> is_finite b \<Longrightarrow> \<not> is_finite (fsub a b)"
  by (cases a; cases b) (auto simp: fsub_def)

lemma fadd_zero_right [simp]: "fadd x (Fin 0) = x"
  by (cases x) simp_all




section \<open>The small system, evaluated\<close>

lemmas ex_defs = ex_env_def ex_N_def ex_N_square_def ex_Mw_def ex_V_def ex_Winhat_def ex_uin_def ex_uout_def
  ex_n0_def ex_engine_def ex_bound_def ex_depleted_def first_order_def two_streams_def

lemmas np_defs = species_count_def ncols_def matmul_def matvec_def dot_def fsum_def rect_def
  mshape_def

lemma ex_init:
  "init ex_env ex_N ex_Mw ex_V (Some ex_Winhat) (Some ex_uin) (Some ex_uout) (Some ex_n0) None
     = Inr ex_engine"
  by (simp add: init_def ex_defs np_defs explicit_config_def pinv_diagonal_def)

lemma ex_add: "add_ratelaws ex_engine [Callable first_order] [1 / 2] = Inr ex_bound"
  by (simp add: add_ratelaws_def ex_bound_def enumerate_eq_zip bind_ratelaw_def bind_fn_def
        collect_def)

lemma ex_sol:
  "odeint ex_env (mole_balance ex_bound) (e_n0 ex_bound) [Fin 0, Fin 1]
     = Inr [[Fin 1, Fin 2], [Fin (19 / 10), Fin (23 / 10)]]"
  by code_simp

lemma ex_run_clean:
  "fst (run_simulation ex_env ex_bound [Fin 0, Fin 1] (Fin 0) ex_world)
     = Inr [(''moles'', Mat [[Fin 1, Fin 2], [Fin (19 / 10), Fin (23 / 10)]]),
            (''reaction_rate'', Mat [[Fin (1 / 4)], [Fin (19 / 40)]]),
            (''flow_rate'', Mat [[Fin (- (1 / 2)), Fin (1 / 2)], [Fin (- (19 / 20)), Fin (19 / 20)]]),
            (''xr'', Mat [[Fin 1], [Fin (2 / 5)]]),
            (''xin'', Mat [[Fin (1 / 2)], [Fin (19 / 20)]]),
            (''xout'', Vec [Fin (1 / 4), Fin (- (1 / 20))])]"
  by code_simp


lemma ex_run_noisy: "fst (run_simulation ex_env ex_bound [Fin 0, Fin 1] (Fin 100) ex_world) = Inr ex_results"
  by code_simp

lemma ex_run_noisy_2d:
  "fst (run_simulation ex_env_2d ex_bound [Fin 0, Fin 1] (Fin 100) ex_world) = Inr ex_results_2d"
  by code_simp


section \<open>Construction: properties\<close>

text \<open>
  Claim C6. Constructing an engine with \<open>n0 = None\<close> fails, whatever the other
  arguments and collaborators are, with the error of the missing mandatory input: the
  source raises \<open>ValueError("n0 cannot be None")\<close> before anything else is done.
\<close>

theorem init_n0_None:
  "init env N Mw V Winhat uin uout None config = Inl (ValueError [Txt ''n0 cannot be None''])"
  by (simp add: init_def)

text \<open>The checks in the order of the source: the outcome of the first one that fails.\<close>

lemma init_Mw_check:
  "length Mw \<noteq> species_count N \<Longrightarrow>
   init env N Mw V Winhat uin uout (Some n0) config = Inl (Mw_mismatch Mw (species_count N) N)"
  by (simp add: init_def)

lemma init_Winhat_check:
  "length Mw = species_count N \<Longrightarrow>
   add_reactor_config env V Winhat uin uout config = Inr (V', W', uin', uout') \<Longrightarrow>
   shape0 W' \<noteq> species_count N \<Longrightarrow>
   init env N Mw V Winhat uin uout (Some n0) config =
     Inl (Winhat_mismatch W' (species_count N) (stream_count W') N)"
  by (simp add: init_def)

lemma init_uin_check:
  "length Mw = species_count N \<Longrightarrow>
   add_reactor_config env V Winhat uin uout config = Inr (V', W', uin', uout') \<Longrightarrow>
   shape0 W' = species_count N \<Longrightarrow>
   length (uin_call uin' (Fin 0)) \<noteq> stream_count W' \<Longrightarrow>
   init env N Mw V Winhat uin uout (Some n0) config =
     Inl (AttributeError (if uin_shape uin' = None then ''shape'' else ''Win''))"
  by (simp add: init_def uin_mismatch_def split: option.splits)

lemma init_n0_check:
  "length Mw = species_count N \<Longrightarrow>
   add_reactor_config env V Winhat uin uout config = Inr (V', W', uin', uout') \<Longrightarrow>
   shape0 W' = species_count N \<Longrightarrow>
   length (uin_call uin' (Fin 0)) = stream_count W' \<Longrightarrow>
   length n0 \<noteq> species_count N \<Longrightarrow>
   init env N Mw V Winhat uin uout (Some n0) config
     = Inl (n0_mismatch (species_count N) (length n0))"
  by (simp add: init_def)

text \<open>
  Claim C2. When the stream count of \<open>uin(0)\<close> differs from \<open>P\<close> and the earlier checks
  pass, the specification has construction fail with the dimension error and the
  offending shapes in its message. Here \<open>Winhat\<close> has one stream and \<open>uin(0)\<close> two
  entries: building the message reads \<open>self.uin.shape\<close> and \<open>self.Win.shape\<close>, and the
  construction ends in an AttributeError, on \<open>shape\<close> when the time function has no
  such attribute and on \<open>Win\<close> (assigned further down) when it has.
\<close>

theorem init_uin_mismatch_AttributeError:
  "init ex_env ex_N_square ex_Mw ex_V (Some ex_Winhat) (Some (two_streams None)) (Some ex_uout)
      (Some ex_n0) None = Inl (AttributeError ''shape'')
   \<and> init ex_env ex_N_square ex_Mw ex_V (Some ex_Winhat) (Some (two_streams (Some [2]))) (Some ex_uout)
      (Some ex_n0) None = Inl (AttributeError ''Win'')"
  by (simp add: init_def ex_defs np_defs explicit_config_def uin_mismatch_def)

text \<open>
  Claim C7. The checks are staged in the order \<open>Mw\<close>, \<open>Winhat\<close>, \<open>uin\<close>, \<open>n0\<close>, and of
  several violations the first one decides the outcome: \<open>Mw\<close> before \<open>n0\<close>, \<open>Winhat\<close>
  before \<open>n0\<close>, \<open>n0\<close> when it is alone. With \<open>uin\<close> and \<open>n0\<close> both inconsistent the
  construction stops at the \<open>uin\<close> stage as well, but what it raises there is the
  AttributeError of the message, which reports no inconsistency.
\<close>

theorem init_staged_checks:
  "init ex_env ex_N_square [[Fin 2]] ex_V (Some ex_Winhat) (Some ex_uin) (Some ex_uout)
      (Some [Fin 1, Fin 2, Fin 3]) None = Inl (Mw_mismatch [[Fin 2]] 2 ex_N_square)
   \<and> init ex_env ex_N_square ex_Mw ex_V (Some (Mat [[Fin 1]])) (Some ex_uin) (Some ex_uout)
      (Some [Fin 1, Fin 2, Fin 3]) None = Inl (Winhat_mismatch (Mat [[Fin 1]]) 2 1 ex_N_square)
   \<and> init ex_env ex_N_square ex_Mw ex_V (Some ex_Winhat) (Some (two_streams None)) (Some ex_uout)
      (Some [Fin 1, Fin 2, Fin 3]) None = Inl (AttributeError ''shape'')
   \<and> init ex_env ex_N_square ex_Mw ex_V (Some ex_Winhat) (Some ex_uin) (Some ex_uout)
      (Some [Fin 1, Fin 2, Fin 3]) None = Inl (n0_mismatch 2 3)"
  by (simp add: init_def ex_defs np_defs explicit_config_def uin_mismatch_def
        numeral_2_eq_2 numeral_3_eq_3)

text \<open>
  Claim C3. For a construction with consistent shapes (\<open>Mw\<close> is \<open>S \<times> S\<close>, \<open>Winhat\<close> has
  \<open>S\<close> rows and \<open>P\<close> streams, \<open>uin(0)\<close> has \<open>P\<close> entries, \<open>n0\<close> has \<open>S\<close>, and the
  pseudo-inverse \<open>Mi\<close> of the \<open>S \<times> S\<close> matrix \<open>Mw\<close> is \<open>S \<times> S\<close>) the construction
  succeeds and the stored \<open>Win\<close> is a 2-D array of \<open>S\<close> rows and \<open>P\<close> columns holding
  \<open>pinv(Mw) @ Winhat\<close>: for a 2-D \<open>Winhat\<close> it is the matrix product, with entry \<open>(i, j)\<close> row
  \<open>i\<close> of \<open>Mi\<close> against column \<open>j\<close> of \<open>Winhat\<close>; for a 1-D \<open>Winhat\<close> it is the column whose
  entry \<open>i\<close> is row \<open>i\<close> of \<open>Mi\<close> against \<open>Winhat\<close>.
\<close>

theorem init_Win_shape:
  assumes cfg: "add_reactor_config env V Winhat uin uout config = Inr (V', W', uin', uout')"
    and S: "species_count N = S" "0 < S"
    and Mw: "rect S S Mw"
    and W: "winhat_ok S P W'"
    and u: "length (uin_call uin' (Fin 0)) = P"
    and n0: "length n0 = S"
    and pinv: "pinv env Mw = Inr Mi" "rect S S Mi"
  shows "\<exists>eng W. init env N Mw V Winhat uin uout (Some n0) config = Inr eng
           \<and> matmul_nd Mi W' = Inr W \<and> e_Win eng = as_2d W \<and> rect S P (e_Win eng)
           \<and> (case W' of
                 Vec v \<Rightarrow> e_Win eng = map (\<lambda>r. [dot r v]) Mi
               | Mat M \<Rightarrow> matmul Mi M = Inr (e_Win eng))
           \<and> (\<forall>i<S. \<forall>j<P. e_Win eng ! i ! j =
                 (case W' of
                    Vec v \<Rightarrow> dot (Mi ! i) v
                  | Mat M \<Rightarrow> dot (Mi ! i) (map (\<lambda>row. row ! j) M)))"
proof -
  have lenMw: "length Mw = S" and rowsMw: "list_all (\<lambda>r. length r = length n0) Mw"
    using Mw n0 by (auto simp: rect_def)
  then obtain mn where mn: "matvec Mw n0 = Inr mn"
    by (auto simp: matvec_def)
  have lenMi: "length Mi = S"
    using pinv(2) by (simp add: rect_def)
  have P: "stream_count W' = P" and s0: "shape0 W' = S"
    using W S(2) by (cases W'; auto simp: ncols_rect rect_def)+
  obtain W2 where W2: "matmul_nd Mi W' = Inr W2" and r2: "rect S P (as_2d W2)"
    and prim: "case W' of Vec v \<Rightarrow> as_2d W2 = map (\<lambda>r. [dot r v]) Mi
                 | Mat M \<Rightarrow> matmul Mi M = Inr (as_2d W2)"
    and ent: "\<forall>i<S. \<forall>j<P. as_2d W2 ! i ! j =
                 (case W' of
                    Vec v \<Rightarrow> dot (Mi ! i) v
                  | Mat M \<Rightarrow> dot (Mi ! i) (map (\<lambda>row. row ! j) M))"
  proof (cases W')
    case (Vec v)
    with W pinv(2) have mv: "matvec Mi v = Inr (map (\<lambda>r. dot r v) Mi)"
      by (auto simp: matvec_def rect_def)
    have "P = 1"
      using Vec W by simp
    with Vec mv pinv(2) lenMi that[of "Vec (map (\<lambda>r. dot r v) Mi)"] show ?thesis
      by (auto simp: rect_def list_all_length comp_def)
  next
    case (Mat M)
    with W have M: "rect S P M" by simp
    have mm: "matmul Mi M = Inr (map (\<lambda>r. map (\<lambda>c. dot r c) (transpose M)) Mi)"
      using pinv(2) M by (auto simp: matmul_def rect_def)
    have tr: "transpose M = map (\<lambda>j. map (\<lambda>row. row ! j) M) [0..<P]"
      by (rule transpose_rect[OF M S(2)])
    from matmul_rect[OF pinv(2) M S(2)] mm
    have r: "rect S P (map (\<lambda>r. map (\<lambda>c. dot r c) (transpose M)) Mi)"
      by auto
    show ?thesis
      using Mat mm r lenMi
      by (intro that[of "Mat (map (\<lambda>r. map (\<lambda>c. dot r c) (transpose M)) Mi)"])
         (auto simp: tr)
  qed
  have "init env N Mw V Winhat uin uout (Some n0) config
          = Inr \<lparr>e_N = N, e_S = S, e_Mw = Mw, e_V = V', e_Winhat = W',
                 e_P = P, e_uin = uin', e_uout = uout', e_n0 = n0,
                 e_Win = as_2d W2, e_m0 = fsum mn, e_ratelaws = None,
                 e_time = None, e_sol = None, e_reaction_rate = None,
                 e_flow_rate = None, e_xr = None, e_xin = None, e_lamda = None\<rparr>"
    using cfg S(1) lenMw P s0 u n0 pinv(1) W2 mn
    by (simp add: init_def)
  with W2 r2 prim ent show ?thesis
    by (cases W') auto
qed

theorem init_Win_shape_witness:
  "(\<exists>eng. init ex_env ex_N_square ex_Mw ex_V (Some (Vec [Fin 1, Fin 0])) (Some ex_uin)
              (Some ex_uout) (Some ex_n0) None = Inr eng
        \<and> e_Win eng = [[Fin (1 / 2)], [Fin 0]])
   \<and> (\<exists>eng. init ex_env ex_N_square ex_Mw ex_V (Some (Mat [[Fin 1, Fin 2], [Fin 0, Fin 4]]))
              (Some (two_streams None)) (Some ex_uout) (Some ex_n0) None = Inr eng
        \<and> e_Win eng = [[Fin (1 / 2), Fin 1], [Fin 0, Fin 1]])"
proof -
  have pi: "pinv ex_env ex_Mw = Inr [[Fin (1 / 2), Fin 0], [Fin 0, Fin (1 / 4)]]"
    by (simp add: ex_defs pinv_diagonal_def)
  have v: "\<exists>eng W. init ex_env ex_N_square ex_Mw ex_V (Some (Vec [Fin 1, Fin 0])) (Some ex_uin)
              (Some ex_uout) (Some ex_n0) None = Inr eng
           \<and> matmul_nd [[Fin (1 / 2), Fin 0], [Fin 0, Fin (1 / 4)]] (Vec [Fin 1, Fin 0]) = Inr W
           \<and> e_Win eng = as_2d W \<and> rect 2 1 (e_Win eng)
           \<and> (case Vec [Fin 1, Fin 0] of
                 Vec v \<Rightarrow> e_Win eng = map (\<lambda>r. [dot r v]) [[Fin (1 / 2), Fin 0], [Fin 0, Fin (1 / 4)]]
               | Mat M \<Rightarrow> matmul [[Fin (1 / 2), Fin 0], [Fin 0, Fin (1 / 4)]] M = Inr (e_Win eng))
           \<and> (\<forall>i<2. \<forall>j<1. e_Win eng ! i ! j =
                 (case Vec [Fin 1, Fin 0] of
                    Vec v \<Rightarrow> dot ([[Fin (1 / 2), Fin 0], [Fin 0, Fin (1 / 4)]] ! i) v
                  | Mat M \<Rightarrow> dot ([[Fin (1 / 2), Fin 0], [Fin 0, Fin (1 / 4)]] ! i)
                               (map (\<lambda>row. row ! j) M)))"
    by (rule init_Win_shape[where V' = ex_V and uin' = ex_uin and uout' = ex_uout, OF _ _ _ _ _ _ _ pi])
       (simp_all add: ex_defs np_defs explicit_config_def)
  have m: "\<exists>eng W. init ex_env ex_N_square ex_Mw ex_V (Some (Mat [[Fin 1, Fin 2], [Fin 0, Fin 4]]))
              (Some (two_streams None)) (Some ex_uout) (Some ex_n0) None = Inr eng
           \<and> matmul_nd [[Fin (1 / 2), Fin 0], [Fin 0, Fin (1 / 4)]]
                (Mat [[Fin 1, Fin 2], [Fin 0, Fin 4]]) = Inr W
           \<and> e_Win eng = as_2d W \<and> rect 2 2 (e_Win eng)
           \<and> (case Mat [[Fin 1, Fin 2], [Fin 0, Fin 4]] of
                 Vec v \<Rightarrow> e_Win eng = map (\<lambda>r. [dot r v]) [[Fin (1 / 2), Fin 0], [Fin 0, Fin (1 / 4)]]
               | Mat M \<Rightarrow> matmul [[Fin (1 / 2), Fin 0], [Fin 0, Fin (1 / 4)]] M = Inr (e_Win eng))
           \<and> (\<forall>i<2. \<forall>j<2. e_Win eng ! i ! j =
                 (case Mat [[Fin 1, Fin 2], [Fin 0, Fin 4]] of
                    Vec v \<Rightarrow> dot ([[Fin (1 / 2), Fin 0], [Fin 0, Fin (1 / 4)]] ! i) v
                  | Mat M \<Rightarrow> dot ([[Fin (1 / 2), Fin 0], [Fin 0, Fin (1 / 4)]] ! i)
                               (map (\<lambda>row. row ! j) M)))"
    by (rule init_Win_shape[where V' = ex_V and uin' = "two_streams None" and uout' = ex_uout,
            OF _ _ _ _ _ _ _ pi])
       (simp_all add: ex_defs np_defs explicit_config_def)
  from v obtain e1 where e1: "init ex_env ex_N_square ex_Mw ex_V (Some (Vec [Fin 1, Fin 0]))
       (Some ex_uin) (Some ex_uout) (Some ex_n0) None = Inr e1"
     and p1: "e_Win e1 = map (\<lambda>r. [dot r [Fin 1, Fin 0]])
                           [[Fin (1 / 2), Fin 0], [Fin 0, Fin (1 / 4)]]"
    by auto
  from m obtain e2 where e2: "init ex_env ex_N_square ex_Mw ex_V
       (Some (Mat [[Fin 1, Fin 2], [Fin 0, Fin 4]])) (Some (two_streams None)) (Some ex_uout)
       (Some ex_n0) None = Inr e2"
     and p2: "matmul [[Fin (1 / 2), Fin 0], [Fin 0, Fin (1 / 4)]]
                [[Fin 1, Fin 2], [Fin 0, Fin 4]] = Inr (e_Win e2)"
    by auto
  have w1: "e_Win e1 = [[Fin (1 / 2)], [Fin 0]]"
    using p1 by (simp add: dot_def fsum_def)
  have "matmul [[Fin (1 / 2), Fin 0], [Fin 0, Fin (1 / 4)]] [[Fin 1, Fin 2], [Fin 0, Fin 4]]
          = Inr [[Fin (1 / 2), Fin 1], [Fin 0, Fin 1]]"
    by (simp add: matmul_def dot_def fsum_def)
  with p2 have w2: "e_Win e2 = [[Fin (1 / 2), Fin 1], [Fin 0, Fin 1]]"
    by simp
  from e1 w1 e2 w2 show ?thesis by blast
qed

section \<open>The right-hand side: properties\<close>

text \<open>A successful binding gives one bound rate law per definition, in order.\<close>

lemma add_ratelaws_success:
  assumes "add_ratelaws eng defs K = Inr eng'"
  shows "length defs \<le> length K \<and> eng' = eng\<lparr>e_ratelaws := Some (map2 bind_fn defs K)\<rparr>"
proof -
  from assms obtain bound where
    c: "collect (map (bind_ratelaw K) (enumerate 0 defs)) = Inr bound"
    and e: "eng' = eng\<lparr>e_ratelaws := Some bound\<rparr>"
    by (auto simp: add_ratelaws_def split: sum.splits)
  from collect_InrD[OF c] have m: "map (bind_ratelaw K) (enumerate 0 defs) = map Inr bound" .
  then have len: "length bound = length defs"
    by (metis length_enumerate length_map)
  have each: "i < length K \<and> bound ! i = bind_fn (defs ! i) (K ! i)" if "i < length defs" for i
  proof -
    have "map (bind_ratelaw K) (enumerate 0 defs) ! i = map Inr bound ! i"
      using m by simp
    then have "bind_ratelaw K (i, defs ! i) = Inr (bound ! i)"
      using that len by (simp add: nth_enumerate_eq)
    then show ?thesis
      by (auto simp: bind_ratelaw_def split: if_splits)
  qed
  have le: "length defs \<le> length K"
  proof (cases defs rule: rev_cases)
    case Nil
    then show ?thesis by simp
  next
    case (snoc ds d)
    then have "length ds < length defs" by simp
    from each[OF this] snoc show ?thesis by simp
  qed
  have "bound = map2 bind_fn defs K"
    using len le each by (auto intro!: nth_equalityI)
  with e le show ?thesis by simp
qed

text \<open>
  With the shapes the arithmetic needs (one row of \<open>N\<close> per rate law, \<open>S\<close> columns in
  \<open>N\<close> and \<open>Mw\<close>, \<open>S\<close> rows of \<open>P\<close> entries in \<open>Win\<close>, \<open>P\<close> entries in \<open>uin(t)\<close>) no operation
  raises, and the array operations compute the formula entry by entry.
\<close>

lemma mole_balance_shaped:
  assumes bound: "e_ratelaws eng = Some rls"
    and N: "rect (length rls) S (e_N eng)" "0 < length rls"
    and Mw: "list_all (\<lambda>r. length r = S) (e_Mw eng)"
    and Win: "rect S P (e_Win eng)"
    and u: "length (uin_call (e_uin eng) t) = P"
    and y: "length y = S"
  shows "mole_balance eng y t = Inr (dydt_formula eng rls y t)"
proof -
  let ?V = "e_V eng t"
  let ?c = "map (\<lambda>x. fdiv x ?V) y"
  let ?r = "map (\<lambda>ratelaw. on_vec ratelaw ?c) rls"
  let ?m = "fsum (map (\<lambda>row. dot row y) (e_Mw eng))"
  have My: "matvec (e_Mw eng) y = Inr (map (\<lambda>row. dot row y) (e_Mw eng))"
    using Mw y by (simp add: matvec_def)
  have NT: "transpose (e_N eng) = map (\<lambda>i. map (\<lambda>row. row ! i) (e_N eng)) [0..<S]"
    using transpose_rect[OF N] .
  have Nr: "matvec (transpose (e_N eng)) ?r
              = Inr (map (\<lambda>i. dot (map (\<lambda>row. row ! i) (e_N eng)) ?r) [0..<S])"
    using N(1) by (simp add: NT matvec_def rect_def list_all_length comp_def)
  have Wu: "matvec (e_Win eng) (uin_call (e_uin eng) t)
              = Inr (map (\<lambda>row. dot row (uin_call (e_uin eng) t)) (e_Win eng))"
    using Win u by (simp add: matvec_def rect_def)
  have lenW: "length (e_Win eng) = S"
    using Win by (simp add: rect_def)
  have "mole_balance eng y t =
      Inr (map2 fsub
             (map2 fadd (map (\<lambda>x. fmul x ?V) (map (\<lambda>i. dot (map (\<lambda>row. row ! i) (e_N eng)) ?r) [0..<S]))
                        (map (\<lambda>row. dot row (uin_call (e_uin eng) t)) (e_Win eng)))
             (outlet_term (e_uout eng t) y ?m))"
    using lenW y by (simp add: mole_balance_def bound My Nr Wu bvec_def Let_def outlet_term_def)
  also have "\<dots> = Inr (dydt_formula eng rls y t)"
    using lenW y by (auto simp: dydt_formula_def Let_def outlet_term_def intro!: nth_equalityI)
  finally show ?thesis .
qed

lemma dydt_formula_length: "length (dydt_formula eng rls y t) = length y"
  by (simp add: dydt_formula_def Let_def)

text \<open>
  Claim C1. After the rate laws are bound, for every state \<open>y\<close> of length \<open>S\<close> and every
  time \<open>t\<close>, \<open>mole_balance(y, t)\<close> returns \<open>N\<^sup>T r V(t) + Win uin(t) - uout(t) y / m\<close>, with
  \<open>r\<close> the bound rate laws at \<open>c = y / V(t)\<close> and \<open>m = sum(Mw @ y)\<close>. The shapes are those
  for which the formula is defined: \<open>N\<close> has one row per bound rate law and \<open>S\<close> columns.
\<close>

theorem mole_balance_formula:
  assumes "add_ratelaws eng0 defs K = Inr eng"
    and "rect (length defs) S (e_N eng0)" "0 < length defs"
    and "list_all (\<lambda>r. length r = S) (e_Mw eng0)"
    and "rect S P (e_Win eng0)"
    and "length (uin_call (e_uin eng0) t) = P"
    and "length y = S"
  shows "mole_balance eng y t = Inr (dydt_formula eng (map2 bind_fn defs K) y t)"
proof -
  from add_ratelaws_success[OF assms(1)]
  have le: "length defs \<le> length K"
    and eng: "eng = eng0\<lparr>e_ratelaws := Some (map2 bind_fn defs K)\<rparr>" by auto
  have len: "length (map2 bind_fn defs K) = length defs"
    using le by simp
  show ?thesis
    by (rule mole_balance_shaped[where S = S and P = P])
       (use assms(2-) len in \<open>simp_all add: eng\<close>)
qed

theorem mole_balance_formula_witness:
  "mole_balance ex_bound [Fin 1, Fin 2] (Fin 0) = Inr [Fin (9 / 10), Fin (3 / 10)]"
proof -
  have "mole_balance ex_bound [Fin 1, Fin 2] (Fin 0)
      = Inr (dydt_formula ex_bound (map2 bind_fn [Callable first_order] [1 / 2]) [Fin 1, Fin 2] (Fin 0))"
    by (rule mole_balance_formula[OF ex_add, where S = 2 and P = 1])
       (simp_all add: ex_defs rect_def)
  also have "dydt_formula ex_bound (map2 bind_fn [Callable first_order] [1 / 2]) [Fin 1, Fin 2] (Fin 0)
      = [Fin (9 / 10), Fin (3 / 10)]"
    by (simp add: dydt_formula_def ex_defs bind_fn_def dot_def fsum_def fsub_def upt_rec Let_def)
  finally show ?thesis .
qed

lemma quotient_not_NaN:
  "is_finite g \<Longrightarrow> is_finite z \<Longrightarrow> a \<noteq> 0 \<Longrightarrow> fsub g (fdiv z (Fin a)) \<noteq> NaN"
  by (cases g; cases z) (simp_all add: fsub_def)

text \<open>
  Claim C9. The division by the total mass \<open>m = sum(Mw @ y)\<close> in the outlet term of
  \<open>mole_balance\<close> is unguarded. When \<open>m\<close> is zero, \<open>mole_balance\<close> raises nothing and handles
  nothing: it returns a vector of the length of \<open>y\<close> in which no entry is finite (every
  entry is an infinity or a NaN). When \<open>m\<close> is finite and not zero, \<open>mole_balance\<close> returns
  the vector whose entry \<open>i\<close> is the generation and inlet part less the quotient of
  \<open>uout(t) * y\<^sub>i\<close> by this non-zero \<open>m\<close>, and where that part and that product are finite
  the entry is a number, not a NaN.
\<close>

theorem outlet_division_unguarded:
  assumes bound: "e_ratelaws eng = Some rls"
    and N: "rect (length rls) S (e_N eng)" "0 < length rls"
    and Mw: "list_all (\<lambda>r. length r = S) (e_Mw eng)"
    and Win: "rect S P (e_Win eng)"
    and u: "length (uin_call (e_uin eng) t) = P"
    and y: "length y = S"
    and m: "m = fsum (map (\<lambda>row. dot row y) (e_Mw eng))"
    and r: "r = map (\<lambda>ratelaw. on_vec ratelaw (map (\<lambda>x. fdiv x (e_V eng t)) y)) rls"
  shows "(m = Fin 0 \<longrightarrow>
           (\<exists>d. mole_balance eng y t = Inr d \<and> length d = length y
                \<and> (\<forall>x\<in>set d. \<not> is_finite x)))
       \<and> (\<forall>a. m = Fin a \<and> a \<noteq> 0 \<longrightarrow>
           (\<exists>d. mole_balance eng y t = Inr d \<and> length d = length y
                \<and> (\<forall>i<length y.
                      d ! i = fsub (fadd (fmul (dot (map (\<lambda>row. row ! i) (e_N eng)) r) (e_V eng t))
                                         (dot (e_Win eng ! i) (uin_call (e_uin eng) t)))
                                   (fdiv (fmul (e_uout eng t) (y ! i)) (Fin a))
                    \<and> (is_finite (fadd (fmul (dot (map (\<lambda>row. row ! i) (e_N eng)) r) (e_V eng t))
                                        (dot (e_Win eng ! i) (uin_call (e_uin eng) t)))
                         \<and> is_finite (fmul (e_uout eng t) (y ! i))
                       \<longrightarrow> d ! i \<noteq> NaN))))"
proof (intro conjI impI allI)
  assume m0: "m = Fin 0"
  have m0': "fsum (map (\<lambda>row. dot row y) (e_Mw eng)) = Fin 0"
    using m m0 by simp
  have "\<forall>x\<in>set (dydt_formula eng rls y t). \<not> is_finite x"
    by (auto simp: dydt_formula_def Let_def m0' nonfinite_div0 nonfinite_fsub)
  with mole_balance_shaped[OF bound N Mw Win u y]
  show "\<exists>d. mole_balance eng y t = Inr d \<and> length d = length y \<and> (\<forall>x\<in>set d. \<not> is_finite x)"
    by (simp add: dydt_formula_length)
next
  fix a
  assume a: "m = Fin a \<and> a \<noteq> 0"
  then have ma: "fsum (map (\<lambda>row. dot row y) (e_Mw eng)) = Fin a" and a0: "a \<noteq> 0"
    using m by simp_all
  have ent: "dydt_formula eng rls y t ! i
           = fsub (fadd (fmul (dot (map (\<lambda>row. row ! i) (e_N eng)) r) (e_V eng t))
                        (dot (e_Win eng ! i) (uin_call (e_uin eng) t)))
                  (fdiv (fmul (e_uout eng t) (y ! i)) (Fin a))" if "i < length y" for i
    using that by (simp add: dydt_formula_def Let_def ma r)
  show "\<exists>d. mole_balance eng y t = Inr d \<and> length d = length y
           \<and> (\<forall>i<length y.
                 d ! i = fsub (fadd (fmul (dot (map (\<lambda>row. row ! i) (e_N eng)) r) (e_V eng t))
                                    (dot (e_Win eng ! i) (uin_call (e_uin eng) t)))
                              (fdiv (fmul (e_uout eng t) (y ! i)) (Fin a))
               \<and> (is_finite (fadd (fmul (dot (map (\<lambda>row. row ! i) (e_N eng)) r) (e_V eng t))
                                   (dot (e_Win eng ! i) (uin_call (e_uin eng) t)))
                    \<and> is_finite (fmul (e_uout eng t) (y ! i))
                  \<longrightarrow> d ! i \<noteq> NaN))"
    using mole_balance_shaped[OF bound N Mw Win u y] ent a0
    by (auto simp: dydt_formula_length quotient_not_NaN)
qed

theorem outlet_division_unguarded_witness:
  "(\<exists>d. mole_balance ex_bound [Fin 0, Fin 0] (Fin 0) = Inr d \<and> length d = 2
        \<and> (\<forall>x\<in>set d. \<not> is_finite x))
   \<and> (\<exists>d. mole_balance ex_bound [Fin 1, Fin 2] (Fin 0) = Inr d \<and> length d = 2
        \<and> d ! 0 \<noteq> NaN \<and> d ! 1 \<noteq> NaN)"
proof -
  have a: "e_ratelaws ex_bound = Some [first_order (1 / 2)]"
    by (simp add: ex_defs)
  have z: "Fin 0 = fsum (map (\<lambda>row. dot row [Fin 0, Fin 0]) (e_Mw ex_bound))"
    by (simp add: ex_defs dot_def fsum_def)
  have t: "Fin 10 = fsum (map (\<lambda>row. dot row [Fin 1, Fin 2]) (e_Mw ex_bound))"
    by (simp add: ex_defs dot_def fsum_def)
  have rz: "[Fin 0] = map (\<lambda>ratelaw. on_vec ratelaw (map (\<lambda>x. fdiv x (e_V ex_bound (Fin 0)))
                        [Fin 0, Fin 0])) [first_order (1 / 2)]"
    by (simp add: ex_defs)
  have rt: "[Fin (1 / 4)] = map (\<lambda>ratelaw. on_vec ratelaw (map (\<lambda>x. fdiv x (e_V ex_bound (Fin 0)))
                        [Fin 1, Fin 2])) [first_order (1 / 2)]"
    by (simp add: ex_defs)
  have s: "rect (length [first_order (1 / 2)]) 2 (e_N ex_bound)" "0 < length [first_order (1 / 2)]"
    "list_all (\<lambda>r. length r = 2) (e_Mw ex_bound)" "rect 2 1 (e_Win ex_bound)"
    "length (uin_call (e_uin ex_bound) (Fin 0)) = 1"
    by (simp_all add: ex_defs rect_def)
  have l0: "length [Fin 0, Fin 0 :: fl] = 2" and l1: "length [Fin 1, Fin 2 :: fl] = 2"
    by simp_all
  from outlet_division_unguarded[OF a s l0 z rz]
  have 1: "\<exists>d. mole_balance ex_bound [Fin 0, Fin 0] (Fin 0) = Inr d \<and> length d = 2
        \<and> (\<forall>x\<in>set d. \<not> is_finite x)"
    by (simp add: numeral_2_eq_2)
  from outlet_division_unguarded[OF a s l1 t rt, THEN conjunct2, rule_format, of 10]
  obtain d where d: "mole_balance ex_bound [Fin 1, Fin 2] (Fin 0) = Inr d" "length d = 2"
    and e: "\<forall>i<2. is_finite (fadd (fmul (dot (map (\<lambda>row. row ! i) (e_N ex_bound)) [Fin (1 / 4)])
                                     (e_V ex_bound (Fin 0)))
                               (dot (e_Win ex_bound ! i) (uin_call (e_uin ex_bound) (Fin 0))))
                 \<and> is_finite (fmul (e_uout ex_bound (Fin 0)) ([Fin 1, Fin 2] ! i))
               \<longrightarrow> d ! i \<noteq> NaN"
    by (auto simp: numeral_2_eq_2)
  have "d ! 0 \<noteq> NaN"
    using e[rule_format, of 0] by (simp add: ex_defs dot_def fsum_def)
  moreover have "d ! 1 \<noteq> NaN"
    using e[rule_format, of 1] by (simp add: ex_defs dot_def fsum_def)
  ultimately show ?thesis
    using 1 d by blast
qed

section \<open>A run: properties\<close>

text \<open>
  The trajectory attributes are not read by the right-hand side or by the derivation of
  the outputs.
\<close>

lemma noisy_rates_time [simp]: "noisy_rates (eng\<lparr>e_time := x\<rparr>) = noisy_rates eng"
  and noisy_rates_sol [simp]: "noisy_rates (eng\<lparr>e_sol := s\<rparr>) = noisy_rates eng"
  by (simp_all add: noisy_rates_def fun_eq_iff cong: option.case_cong sum.case_cong)

lemma flow_rates_fields [simp]:
  "flow_rates (eng\<lparr>e_time := x\<rparr>) = flow_rates eng"
  "flow_rates (eng\<lparr>e_sol := s\<rparr>) = flow_rates eng"
  "flow_rates (eng\<lparr>e_reaction_rate := r\<rparr>) = flow_rates eng"
  by (simp_all add: flow_rates_def fun_eq_iff cong: option.case_cong sum.case_cong)

lemma mole_balance_time [simp]: "mole_balance (eng\<lparr>e_time := x\<rparr>) = mole_balance eng"
  by (simp add: mole_balance_def fun_eq_iff Let_def cong: option.case_cong sum.case_cong)

lemma derived_outputs_returns:
  assumes "derived_outputs env eng2 nsol time = (Inr d, eng')"
  obtains rr flow q0T S0T M0T Q0T xr xin lamda where
    "noisy_rates eng2 nsol time = Inr rr"
    "flow_rates eng2 rr time = Inr flow"
    "compute_matrices env (e_N eng2) (e_Win eng2) (e_n0 eng2) = Inr (q0T, S0T, M0T, Q0T)"
    "matmul_nd nsol (nd_T S0T) = Inr xr"
    "matmul_nd nsol (nd_T M0T) = Inr xin"
    "matmul_nd nsol (nd_T q0T) = Inr lamda"
    "d = [(''moles'', Mat nsol), (''reaction_rate'', Mat (transpose rr)), (''flow_rate'', Mat flow),
          (''xr'', xr), (''xin'', xin), (''xout'', one_minus lamda)]"
    "e_lamda eng' = Some lamda"
  using assms
  unfolding derived_outputs_def Let_def
  by (auto split: sum.splits prod.splits)

lemma run_simulation_returns:
  assumes "run_simulation env eng time alpha w = (Inr d, eng', w')"
  obtains sol peak noise nsol where
    "odeint env (mole_balance eng) (e_n0 eng) time = Inr sol"
    "col_max sol = Inr peak"
    "multivariate_normal env (replicate (ncols sol) (Fin 0)) (noise_cov alpha peak) (length sol) w
       = (Inr noise, w')"
    "bmat fadd sol noise = Inr nsol"
    "derived_outputs env (eng\<lparr>e_time := Some time, e_sol := Some nsol\<rparr>) nsol time = (Inr d, eng')"
  using assms
  unfolding run_simulation_def Let_def
  by (auto split: sum.splits prod.splits)

lemma noisy_rates_returns:
  assumes "noisy_rates eng nsol time = Inr rr"
  obtains ratelaws where
    "e_ratelaws eng = Some ratelaws"
    "length rr = length ratelaws"
    "\<And>i. i < length ratelaws \<Longrightarrow>
       \<exists>c. bmat_vec fdiv (transpose nsol) (map (e_V eng) time) = Inr c
          \<and> rr ! i = on_mat (ratelaws ! i) c"
proof -
  from assms obtain ratelaws rows where rl: "e_ratelaws eng = Some ratelaws"
    and c: "collect (map (\<lambda>ratelaw.
                   case bmat_vec fdiv (transpose nsol) (map (e_V eng) time) of
                     Inl e \<Rightarrow> Inl e
                   | Inr c \<Rightarrow> Inr (on_mat ratelaw c)) ratelaws) = Inr rows"
    and st: "stack rows = Inr rr"
    by (auto simp: noisy_rates_def split: option.splits sum.splits)
  from st have rr: "rr = rows"
    by (auto simp: stack_def split: if_splits)
  from collect_InrD[OF c] have m: "map (\<lambda>ratelaw.
                   case bmat_vec fdiv (transpose nsol) (map (e_V eng) time) of
                     Inl e \<Rightarrow> Inl e
                   | Inr c \<Rightarrow> Inr (on_mat ratelaw c)) ratelaws = map Inr rows" .
  then have len: "length rows = length ratelaws"
    by (metis length_map)
  have each: "\<exists>c. bmat_vec fdiv (transpose nsol) (map (e_V eng) time) = Inr c
          \<and> rr ! i = on_mat (ratelaws ! i) c" if "i < length ratelaws" for i
  proof -
    from m have "map (\<lambda>ratelaw.
                   case bmat_vec fdiv (transpose nsol) (map (e_V eng) time) of
                     Inl e \<Rightarrow> Inl e
                   | Inr c \<Rightarrow> Inr (on_mat ratelaw c)) ratelaws ! i = map Inr rows ! i"
      by simp
    with that len show ?thesis
      by (auto simp: rr split: sum.splits)
  qed
  from that[OF rl _ each] len rr show thesis by simp
qed

lemma one_minus_entries:
  "one_minus (Vec v) = Vec x \<Longrightarrow> k < length v \<Longrightarrow> x ! k = fsub (Fin 1) (v ! k)"
  "one_minus (Mat M) = Mat X \<Longrightarrow> k < length M \<Longrightarrow> j < length (M ! k) \<Longrightarrow>
     X ! k ! j = fsub (Fin 1) (M ! k ! j)"
  by auto

text \<open>
  The concentration of a trajectory of \<open>T\<close> timesteps and \<open>S\<close> species on a grid of \<open>T\<close>
  points: species \<open>s\<close> at timestep \<open>k\<close> is the amount divided by the volume at that point.
\<close>

lemma concentration_entries:
  assumes "rect T S nsol" "0 < T" "length time = T"
  shows "bmat_vec fdiv (transpose nsol) (map V time)
           = Inr (map (\<lambda>s. map (\<lambda>k. fdiv (nsol ! k ! s) (V (time ! k))) [0..<T]) [0..<S])"
proof -
  have len: "length nsol = T"
    using assms(1) by (simp add: rect_def)
  have "map (\<lambda>r. bvec fdiv r (map V time)) (transpose nsol)
          = map Inr (map (\<lambda>s. map (\<lambda>k. fdiv (nsol ! k ! s) (V (time ! k))) [0..<T]) [0..<S])"
    using assms(3) len
    by (auto simp: transpose_rect[OF assms(1,2)] bvec_def intro!: nth_equalityI)
  then show ?thesis
    unfolding bmat_vec_def by (simp only: collect_map_Inr)
qed

text \<open>
  Claim C5. In every results mapping that \<open>run_simulation\<close> returns, the entry under
  \<open>"xout"\<close> is \<open>1 - lamda\<close> on every entry, at every timestep, where \<open>lamda\<close> is the product of
  the noisy trajectory (the entry under \<open>"moles"\<close>) with the transpose of the first
  decomposition matrix \<open>q0T\<close> (a 1-D \<open>q0T\<close> is its own transpose); \<open>lamda\<close> is what the object
  keeps as \<open>_lamda\<close>.
\<close>

theorem xout_one_minus_lamda:
  assumes "run_simulation env eng time alpha w = (Inr d, eng', w')"
  shows "\<exists>nsol q0T S0T M0T Q0T lamda.
           map_of d ''moles'' = Some (Mat nsol)
         \<and> compute_matrices env (e_N eng) (e_Win eng) (e_n0 eng) = Inr (q0T, S0T, M0T, Q0T)
         \<and> matmul_nd nsol (nd_T q0T) = Inr lamda
         \<and> (case q0T of
               Vec q \<Rightarrow> \<exists>l. matvec nsol q = Inr l \<and> lamda = Vec l
             | Mat Q \<Rightarrow> \<exists>L. matmul nsol (transpose Q) = Inr L \<and> lamda = Mat L)
         \<and> e_lamda eng' = Some lamda
         \<and> map_of d ''xout'' =
             Some (case lamda of
                     Vec l \<Rightarrow> Vec (map (\<lambda>x. fsub (Fin 1) x) l)
                   | Mat L \<Rightarrow> Mat (map (map (\<lambda>x. fsub (Fin 1) x)) L))"
proof -
  from run_simulation_returns[OF assms] obtain nsol where
    d: "derived_outputs env (eng\<lparr>e_time := Some time, e_sol := Some nsol\<rparr>) nsol time = (Inr d, eng')"
    by blast
  from d obtain q0T S0T M0T Q0T lamda where
    h: "map_of d ''moles'' = Some (Mat nsol)"
       "compute_matrices env (e_N eng) (e_Win eng) (e_n0 eng) = Inr (q0T, S0T, M0T, Q0T)"
       "matmul_nd nsol (nd_T q0T) = Inr lamda"
       "e_lamda eng' = Some lamda"
       "map_of d ''xout'' = Some (one_minus lamda)"
    by (elim derived_outputs_returns) auto
  have prim: "case q0T of
               Vec q \<Rightarrow> \<exists>l. matvec nsol q = Inr l \<and> lamda = Vec l
             | Mat Q \<Rightarrow> \<exists>L. matmul nsol (transpose Q) = Inr L \<and> lamda = Mat L"
    using h(3) by (cases q0T) (auto simp: map_sum_def split: sum.splits)
  have one: "one_minus lamda = (case lamda of
                     Vec l \<Rightarrow> Vec (map (\<lambda>x. fsub (Fin 1) x) l)
                   | Mat L \<Rightarrow> Mat (map (map (\<lambda>x. fsub (Fin 1) x)) L))"
    by (cases lamda) simp_all
  show ?thesis
    by (intro exI conjI) (rule h(1), rule h(2), rule h(3), rule prim, rule h(4),
        rule h(5)[unfolded one])
qed

theorem xout_one_minus_lamda_witness:
  "(\<exists>(eng' :: engine) w'.
       run_simulation ex_env ex_bound [Fin 0, Fin 1] (Fin 100) ex_world = (Inr ex_results, eng', w')
     \<and> e_lamda eng' = Some (Vec [Fin (119 / 40), Fin (131 / 40)])
     \<and> map_of ex_results ''xout'' = Some (Vec [Fin (1 - 119 / 40), Fin (1 - 131 / 40)]))
   \<and> (\<exists>(eng' :: engine) w'.
       run_simulation ex_env_2d ex_bound [Fin 0, Fin 1] (Fin 100) ex_world
         = (Inr ex_results_2d, eng', w')
     \<and> e_lamda eng' = Some (Mat [[Fin (119 / 40)], [Fin (131 / 40)]])
     \<and> map_of ex_results_2d ''xout'' = Some (Mat [[Fin (1 - 119 / 40)], [Fin (1 - 131 / 40)]]))"
proof -
  obtain e1 w1 where r1:
    "run_simulation ex_env ex_bound [Fin 0, Fin 1] (Fin 100) ex_world = (Inr ex_results, e1, w1)"
    using ex_run_noisy
    by (cases "run_simulation ex_env ex_bound [Fin 0, Fin 1] (Fin 100) ex_world") auto
  obtain e2 w2 where r2:
    "run_simulation ex_env_2d ex_bound [Fin 0, Fin 1] (Fin 100) ex_world
       = (Inr ex_results_2d, e2, w2)"
    using ex_run_noisy_2d
    by (cases "run_simulation ex_env_2d ex_bound [Fin 0, Fin 1] (Fin 100) ex_world") auto
  from xout_one_minus_lamda[OF r1] obtain nsol q0T S0T M0T Q0T lamda where
    h: "map_of ex_results ''moles'' = Some (Mat nsol)"
       "compute_matrices ex_env (e_N ex_bound) (e_Win ex_bound) (e_n0 ex_bound)
             = Inr (q0T, S0T, M0T, Q0T)"
       "case q0T of
               Vec q \<Rightarrow> \<exists>l. matvec nsol q = Inr l \<and> lamda = Vec l
             | Mat Q \<Rightarrow> \<exists>L. matmul nsol (transpose Q) = Inr L \<and> lamda = Mat L"
       "e_lamda e1 = Some lamda"
       "map_of ex_results ''xout'' = Some (case lamda of
                     Vec l \<Rightarrow> Vec (map (\<lambda>x. fsub (Fin 1) x) l)
                   | Mat L \<Rightarrow> Mat (map (map (\<lambda>x. fsub (Fin 1) x)) L))"
    by blast
  from h(1) have nsol: "nsol = [[Fin (461 / 100), Fin (729 / 100)], [Fin (551 / 100), Fin (759 / 100)]]"
    by (simp add: ex_results_def)
  from h(2) have q: "q0T = Vec [Fin (1 / 4), Fin (1 / 4)]"
    by (simp add: ex_defs ex_matrices_def)
  from h(3) have l: "lamda = Vec [Fin (119 / 40), Fin (131 / 40)]"
    by (simp add: nsol q matvec_def dot_def fsum_def)
  from h(5) have x: "map_of ex_results ''xout'' = Some (Vec [Fin (1 - 119 / 40), Fin (1 - 131 / 40)])"
    by (simp add: l fsub_def)
  from xout_one_minus_lamda[OF r2] obtain nsol' q0T' S0T' M0T' Q0T' lamda' where
    h': "map_of ex_results_2d ''moles'' = Some (Mat nsol')"
       "compute_matrices ex_env_2d (e_N ex_bound) (e_Win ex_bound) (e_n0 ex_bound)
             = Inr (q0T', S0T', M0T', Q0T')"
       "case q0T' of
               Vec q \<Rightarrow> \<exists>l. matvec nsol' q = Inr l \<and> lamda' = Vec l
             | Mat Q \<Rightarrow> \<exists>L. matmul nsol' (transpose Q) = Inr L \<and> lamda' = Mat L"
       "e_lamda e2 = Some lamda'"
       "map_of ex_results_2d ''xout'' = Some (case lamda' of
                     Vec l \<Rightarrow> Vec (map (\<lambda>x. fsub (Fin 1) x) l)
                   | Mat L \<Rightarrow> Mat (map (map (\<lambda>x. fsub (Fin 1) x)) L))"
    by blast
  from h'(1) have nsol': "nsol' = [[Fin (461 / 100), Fin (729 / 100)], [Fin (551 / 100), Fin (759 / 100)]]"
    by (simp add: ex_results_2d_def)
  from h'(2) have q': "q0T' = Mat [[Fin (1 / 4), Fin (1 / 4)]]"
    by (simp add: ex_defs ex_env_2d_def ex_matrices_2d_def)
  from h'(3) have l': "lamda' = Mat [[Fin (119 / 40)], [Fin (131 / 40)]]"
    by (auto simp: nsol' q' matmul_def dot_def fsum_def)
  from h'(5) have x': "map_of ex_results_2d ''xout''
                         = Some (Mat [[Fin (1 - 119 / 40)], [Fin (1 - 131 / 40)]])"
    by (simp add: l' fsub_def)
  from r1 h(4) l x r2 h'(4) l' x' show ?thesis
    by blast
qed

text \<open>
  Claim C8. In every run that returns, the rate trajectory is every bound rate law
  evaluated at the concentration of the noisy trajectory (the integrated trajectory
  plus the noise drawn, transposed and divided by \<open>V(time)\<close>), reported transposed, and
  the flow-rate trajectory is \<open>N\<^sup>T\<close> times these rates, multiplied by \<open>V(time)\<close> and
  transposed. In the small system with \<open>alpha = 100\<close> the integrated trajectory starts at
  \<open>[1, 2]\<close> and the reported rates are those of the noisy one.
\<close>

theorem noisy_rates_reported:
  assumes "run_simulation env eng time alpha w = (Inr d, eng', w')"
  shows "\<exists>sol peak noise nsol ratelaws rr Nr f.
           odeint env (mole_balance eng) (e_n0 eng) time = Inr sol
         \<and> col_max sol = Inr peak
         \<and> fst (mvn env (rng w) (replicate (ncols sol) (Fin 0)) (noise_cov alpha peak) (length sol))
             = Inr noise
         \<and> bmat fadd sol noise = Inr nsol
         \<and> map_of d ''moles'' = Some (Mat nsol)
         \<and> e_ratelaws eng = Some ratelaws
         \<and> length rr = length ratelaws
         \<and> (\<forall>i<length ratelaws.
               \<exists>c. bmat_vec fdiv (transpose nsol) (map (e_V eng) time) = Inr c
                  \<and> rr ! i = on_mat (ratelaws ! i) c)
         \<and> map_of d ''reaction_rate'' = Some (Mat (transpose rr))
         \<and> matmul (transpose (e_N eng)) rr = Inr Nr
         \<and> bmat_vec fmul Nr (map (e_V eng) time) = Inr f
         \<and> map_of d ''flow_rate'' = Some (Mat (transpose f))"
proof -
  from run_simulation_returns[OF assms] obtain sol peak noise nsol where
    sol: "odeint env (mole_balance eng) (e_n0 eng) time = Inr sol"
    and peak: "col_max sol = Inr peak"
    and mv: "multivariate_normal env (replicate (ncols sol) (Fin 0)) (noise_cov alpha peak) (length sol) w
       = (Inr noise, w')"
    and ns: "bmat fadd sol noise = Inr nsol"
    and d: "derived_outputs env (eng\<lparr>e_time := Some time, e_sol := Some nsol\<rparr>) nsol time = (Inr d, eng')"
    by blast
  from mv have noise: "fst (mvn env (rng w) (replicate (ncols sol) (Fin 0)) (noise_cov alpha peak) (length sol))
             = Inr noise"
    by (auto simp: multivariate_normal_def split: prod.splits)
  from d obtain rr flow where
    rr: "noisy_rates eng nsol time = Inr rr"
    and fl: "flow_rates eng rr time = Inr flow"
    and dd: "map_of d ''moles'' = Some (Mat nsol)" "map_of d ''reaction_rate'' = Some (Mat (transpose rr))"
       "map_of d ''flow_rate'' = Some (Mat flow)"
    by (elim derived_outputs_returns) auto
  from fl obtain Nr f where Nr: "matmul (transpose (e_N eng)) rr = Inr Nr"
    and f: "bmat_vec fmul Nr (map (e_V eng) time) = Inr f" and flow: "flow = transpose f"
    by (auto simp: flow_rates_def split: sum.splits)
  from noisy_rates_returns[OF rr] obtain ratelaws where
    "e_ratelaws eng = Some ratelaws" "length rr = length ratelaws"
    "\<forall>i<length ratelaws.
               \<exists>c. bmat_vec fdiv (transpose nsol) (map (e_V eng) time) = Inr c
                  \<and> rr ! i = on_mat (ratelaws ! i) c"
    by blast
  with sol peak noise ns dd Nr f flow show ?thesis
    by blast
qed

theorem noisy_rates_reported_witness:
  "(\<exists>sol peak noise nsol ratelaws rr Nr f.
           odeint ex_env (mole_balance ex_bound) (e_n0 ex_bound) [Fin 0, Fin 1] = Inr sol
         \<and> col_max sol = Inr peak
         \<and> fst (mvn ex_env (rng ex_world) (replicate (ncols sol) (Fin 0)) (noise_cov (Fin 100) peak)
                  (length sol)) = Inr noise
         \<and> bmat fadd sol noise = Inr nsol
         \<and> map_of ex_results ''moles'' = Some (Mat nsol)
         \<and> e_ratelaws ex_bound = Some ratelaws
         \<and> length rr = length ratelaws
         \<and> (\<forall>i<length ratelaws.
               \<exists>c. bmat_vec fdiv (transpose nsol) (map (e_V ex_bound) [Fin 0, Fin 1]) = Inr c
                  \<and> rr ! i = on_mat (ratelaws ! i) c)
         \<and> map_of ex_results ''reaction_rate'' = Some (Mat (transpose rr))
         \<and> matmul (transpose (e_N ex_bound)) rr = Inr Nr
         \<and> bmat_vec fmul Nr (map (e_V ex_bound) [Fin 0, Fin 1]) = Inr f
         \<and> map_of ex_results ''flow_rate'' = Some (Mat (transpose f)))
   \<and> odeint ex_env (mole_balance ex_bound) (e_n0 ex_bound) [Fin 0, Fin 1]
       = Inr [[Fin 1, Fin 2], [Fin (19 / 10), Fin (23 / 10)]]
   \<and> map_of ex_results ''reaction_rate'' = Some (Mat [[Fin (461 / 400)], [Fin (551 / 400)]])"
proof -
  obtain eng' w' where r:
    "run_simulation ex_env ex_bound [Fin 0, Fin 1] (Fin 100) ex_world = (Inr ex_results, eng', w')"
    using ex_run_noisy
    by (cases "run_simulation ex_env ex_bound [Fin 0, Fin 1] (Fin 100) ex_world") auto
  have "map_of ex_results ''reaction_rate'' = Some (Mat [[Fin (461 / 400)], [Fin (551 / 400)]])"
    by (simp add: ex_results_def)
  with noisy_rates_reported[OF r] ex_sol show ?thesis
    by blast
qed

text \<open>
  Claim C10, as amended. A run whose integration returns a trajectory with at least one
  timestep invokes the sampler exactly once, whatever \<open>alpha\<close> is, zero included: the
  record of invocations grows by this one entry and the generator is left in the state
  this invocation returns.
\<close>

theorem sampler_invoked_once:
  assumes "odeint env (mole_balance eng) (e_n0 eng) time = Inr sol" and "sol \<noteq> []"
  shows "\<exists>peak. col_max sol = Inr peak
           \<and> snd (snd (run_simulation env eng time alpha w))
             = \<lparr>rng = snd (mvn env (rng w) (replicate (ncols sol) (Fin 0)) (noise_cov alpha peak)
                          (length sol)),
                sampled = sampled w @ [(replicate (ncols sol) (Fin 0), noise_cov alpha peak,
                                        length sol)]\<rparr>"
proof -
  from assms(2) obtain peak where peak: "col_max sol = Inr peak"
    by (cases sol) (auto simp: col_max_def)
  show ?thesis
    using assms(1) peak
    by (auto simp: run_simulation_def multivariate_normal_def Let_def
             split: sum.splits prod.splits)
qed

theorem sampler_invoked_once_witness:
  "snd (snd (run_simulation ex_env ex_bound [Fin 0, Fin 1] (Fin 0) ex_world))
     = \<lparr>rng = 2, sampled = [([Fin 0, Fin 0], [[Fin 0, Fin 0], [Fin 0, Fin 0]], 2)]\<rparr>"
proof -
  have ne: "[[Fin 1, Fin 2], [Fin (19 / 10), Fin (23 / 10)]] \<noteq> ([] :: matrix)"
    by simp
  from sampler_invoked_once[OF ex_sol ne, of "Fin 0" ex_world]
  show ?thesis
    by (simp add: col_max_def ncols_def noise_cov_def diag_def ex_defs scaled_mvn_def
          ex_world_def upt_rec fsum_def)
qed

text \<open>
  The claim as stated, for every call, fails where the integration raises: with two rate
  laws bound for one reaction (a mismatch the constructor and \<open>add_ratelaws\<close> do not
  check) the right-hand side raises the shape error of \<open>N.T @ rate\<close>, the run ends there,
  and the sampler has not been invoked.
\<close>

theorem sampler_not_reached_counterexample:
  "add_ratelaws ex_engine [Callable first_order, RateLaw first_order] [1 / 2, 1 / 3] = Inr ex_two
   \<and> fst (run_simulation ex_env ex_two [Fin 0, Fin 1] (Fin 0) ex_world)
     = Inl (shape_error ''matmul: mismatch in core dimension '' [2, 1] [2])
   \<and> snd (snd (run_simulation ex_env ex_two [Fin 0, Fin 1] (Fin 0) ex_world)) = ex_world
   \<and> sampled (snd (snd (run_simulation ex_env ex_two [Fin 0, Fin 1] (Fin 0) ex_world))) = []"
proof -
  have bound: "add_ratelaws ex_engine [Callable first_order, RateLaw first_order] [1 / 2, 1 / 3]
                 = Inr ex_two"
    by (simp add: add_ratelaws_def ex_two_def enumerate_eq_zip bind_ratelaw_def bind_fn_def
          collect_def upt_rec)
  have run: "fst (run_simulation ex_env ex_two [Fin 0, Fin 1] (Fin 0) ex_world)
     = Inl (shape_error ''matmul: mismatch in core dimension '' [2, 1] [2])
   \<and> snd (snd (run_simulation ex_env ex_two [Fin 0, Fin 1] (Fin 0) ex_world)) = ex_world
   \<and> sampled (snd (snd (run_simulation ex_env ex_two [Fin 0, Fin 1] (Fin 0) ex_world))) = []"
    by code_simp
  from bound run show ?thesis by (rule conjI)
qed






lemma same_inputs_refl [simp]: "same_inputs a a"
  by (simp add: same_inputs_def)





lemma same_inputs_updates [simp]:
  "same_inputs a (b\<lparr>e_time := t\<rparr>) = same_inputs a b"
  "same_inputs a (b\<lparr>e_sol := s\<rparr>) = same_inputs a b"
  "same_inputs a (b\<lparr>e_reaction_rate := r\<rparr>) = same_inputs a b"
  "same_inputs a (b\<lparr>e_flow_rate := f\<rparr>) = same_inputs a b"
  "same_inputs a (b\<lparr>e_xr := x\<rparr>) = same_inputs a b"
  "same_inputs a (b\<lparr>e_xin := y\<rparr>) = same_inputs a b"
  "same_inputs a (b\<lparr>e_lamda := l\<rparr>) = same_inputs a b"
  by (simp_all add: same_inputs_def)

lemma same_inputs_updates_left [simp]:
  "same_inputs (b\<lparr>e_time := t\<rparr>) a = same_inputs b a"
  "same_inputs (b\<lparr>e_sol := s\<rparr>) a = same_inputs b a"
  by (simp_all add: same_inputs_def)









end
